theory Spec2Isabelle
  imports Complex_Main "HOL-Library.AList"
begin

section \<open>Python values and dictionaries\<close>

text \<open>
  The service passes work items, filters and model responses around as Python
  dictionaries of type \<open>Dict[str, Any]\<close>. A value is modelled by \<open>pyval\<close>; a dictionary is
  an association list read through \<open>map_of\<close>. A float is a real number: the functions
  modelled here only test floats against zero and pass them on. Values are compared with
  \<open>==\<close> only against string literals, where Python's equality is the equality of \<open>pyval\<close>.
\<close>

datatype pyval =
    PyNone
  | PyBool bool
  | PyInt int
  | PyFloat real
  | PyStr string
  | PyList "pyval list"
  | PyDict "(string \<times> pyval) list"

type_synonym dict = "(string \<times> pyval) list"

text \<open>Python's truth value of an object, as tested by \<open>if x:\<close>, \<open>not x\<close> and \<open>x or y\<close>.\<close>

fun truthy :: "pyval \<Rightarrow> bool" where
  "truthy PyNone = False"
| "truthy (PyBool b) = b"
| "truthy (PyInt i) = (i \<noteq> 0)"
| "truthy (PyFloat r) = (r \<noteq> 0)"
| "truthy (PyStr s) = (s \<noteq> [])"
| "truthy (PyList xs) = (xs \<noteq> [])"
| "truthy (PyDict kvs) = (kvs \<noteq> [])"

text \<open>\<open>d.get(k, default)\<close> and \<open>d.get(k)\<close> (whose default is \<open>None\<close>).\<close>

definition dict_get :: "dict \<Rightarrow> string \<Rightarrow> pyval \<Rightarrow> pyval" where
  "dict_get d k dflt = (case map_of d k of Some v \<Rightarrow> v | None \<Rightarrow> dflt)"

definition dict_get_none :: "dict \<Rightarrow> string \<Rightarrow> pyval" where
  "dict_get_none d k = dict_get d k PyNone"

section \<open>Type-hierarchy resolver\<close>

text \<open>
  \<open>BedrockService._get_expected_child_work_item_type\<close> (bedrock_service.py, lines 96-116).
  The result \<open>None\<close> of the source is \<open>None\<close> here, a returned string \<open>s\<close> is \<open>Some s\<close>.
\<close>

definition get_expected_child_work_item_type :: "dict \<Rightarrow> bool \<Rightarrow> string option" where
  "get_expected_child_work_item_type work_item plural =
     (let work_item_type = dict_get work_item ''workItemType'' (PyStr '''');
          process_template = dict_get work_item ''processTemplate'' (PyStr '''')
      in if work_item_type = PyStr ''Epic'' then
           Some (if plural then ''Features'' else ''Feature'')
         else if work_item_type = PyStr ''Feature'' then
           (if process_template = PyStr ''Scrum'' then
              Some (if plural then ''Product Backlog Items'' else ''Product Backlog Item'')
            else
              Some (if plural then ''User Stories'' else ''User Story''))
         else if work_item_type \<in> set [PyStr ''User Story'', PyStr ''Product Backlog Item''] then
           Some (if plural then ''Tasks'' else ''Task'')
         else None)"

section \<open>Knowledge-base filters\<close>

text \<open>
  \<open>BedrockService._build_work_item_breakdown_filters\<close> (lines 158-176). Each of the four
  \<open>if work_item.get(k): filter_conditions.append({"equals": {"key": k, "value": work_item[k]}})\<close>
  statements is one call of \<open>append_condition\<close>; the subscript \<open>work_item[k]\<close> is reached
  only when \<open>work_item.get(k)\<close> is truthy, so the key is present and both read the same value.
\<close>

definition equals_condition :: "string \<Rightarrow> pyval \<Rightarrow> pyval" where
  "equals_condition k v = PyDict [(''equals'', PyDict [(''key'', PyStr k), (''value'', v)])]"

definition append_condition :: "dict \<Rightarrow> string \<Rightarrow> pyval list \<Rightarrow> pyval list" where
  "append_condition work_item k filter_conditions =
     (if truthy (dict_get_none work_item k)
      then filter_conditions @ [equals_condition k (dict_get_none work_item k)]
      else filter_conditions)"

definition build_work_item_breakdown_filters :: "dict \<Rightarrow> dict" where
  "build_work_item_breakdown_filters work_item =
     (let filter_conditions =
            append_condition work_item ''system''
              (append_condition work_item ''businessUnit''
                (append_condition work_item ''areaPath''
                  (append_condition work_item ''workItemType'' [])))
      in if length filter_conditions \<ge> 2 then
           [(''filter'', PyDict [(''andAll'', PyList filter_conditions)])]
         else if length filter_conditions = 1 then
           [(''filter'', filter_conditions ! 0)]
         else [])"

text \<open>
  The filter as the specification words it: one equality condition for each of the four
  fields, in this order, that is present with a truthy value (for a string: non-empty).
\<close>

definition filter_fields :: "string list" where
  "filter_fields = [''workItemType'', ''areaPath'', ''businessUnit'', ''system'']"

definition field_present :: "dict \<Rightarrow> string \<Rightarrow> bool" where
  "field_present work_item k = (case map_of work_item k of Some v \<Rightarrow> truthy v | None \<Rightarrow> False)"

definition present_conditions :: "dict \<Rightarrow> pyval list" where
  "present_conditions work_item =
     map (\<lambda>k. equals_condition k (the (map_of work_item k)))
       (filter (field_present work_item) filter_fields)"

section \<open>Lenient JSON extraction\<close>

text \<open>
  \<open>str.find\<close> and \<open>str.rfind\<close> of a single character: the index of the first and of the last
  occurrence, or \<open>-1\<close>. \<open>py_slice xs a b\<close> is the slice \<open>xs[a:b]\<close>, with Python's clamping and
  its negative indices counted from the end; \<open>py_prefix xs b\<close> is \<open>xs[:b]\<close>.
\<close>

fun find_from :: "char \<Rightarrow> string \<Rightarrow> int \<Rightarrow> int" where
  "find_from c [] i = -1"
| "find_from c (x # xs) i = (if x = c then i else find_from c xs (i + 1))"

definition str_find :: "string \<Rightarrow> char \<Rightarrow> int" where
  "str_find s c = find_from c s 0"

fun rfind_from :: "char \<Rightarrow> string \<Rightarrow> int \<Rightarrow> int \<Rightarrow> int" where
  "rfind_from c [] i best = best"
| "rfind_from c (x # xs) i best = rfind_from c xs (i + 1) (if x = c then i else best)"

definition str_rfind :: "string \<Rightarrow> char \<Rightarrow> int" where
  "str_rfind s c = rfind_from c s 0 (-1)"

definition py_slice :: "'a list \<Rightarrow> int \<Rightarrow> int \<Rightarrow> 'a list" where
  "py_slice xs a b =
     (let n = int (length xs);
          lo = (if a < 0 then max (n + a) 0 else min a n);
          hi = (if b < 0 then max (n + b) 0 else min b n)
      in take (nat (hi - lo)) (drop (nat lo) xs))"

definition py_prefix :: "'a list \<Rightarrow> int \<Rightarrow> 'a list" where
  "py_prefix xs b = py_slice xs 0 b"

definition safe_json_parse :: "(string \<Rightarrow> pyval option) \<Rightarrow> string \<Rightarrow> pyval option" where
  "safe_json_parse loads input_str =
     (let start = str_find input_str CHR ''{'';
          end = str_rfind input_str CHR ''}''
      in if start = -1 \<or> end = -1 \<or> end \<le> start then None
         else loads (py_slice input_str start (end + 1)))"

section \<open>A model of the library function json.loads\<close>

text \<open>
  \<open>json.loads\<close> belongs to the Python library, not to the repository: every function that
  parses takes it as the parameter \<open>loads\<close>, whose result \<open>None\<close> stands for a raised
  \<open>JSONDecodeError\<close>. The concrete \<open>json_loads\<close> below is used to run the functions on
  concrete texts. It reads objects, arrays, strings with the one-character escapes, integers,
  \<open>true\<close>, \<open>false\<close> and \<open>null\<close>; a repeated key keeps its first position and its last
  value, as a Python dictionary does. Numbers with a fraction or an exponent and \<open>\u\<close>
  escapes are outside this fragment and are rejected here.
\<close>

datatype token =
    TLBrace | TRBrace | TLBracket | TRBracket | TColon | TComma
  | TString string | TInt int | TTrue | TFalse | TNull

datatype lexmode =
    LNormal
  | LString string
  | LEscape string
  | LNumber bool string
  | LWord string

definition is_digit :: "char \<Rightarrow> bool" where
  "is_digit c = (c \<in> set ''0123456789'')"

definition is_space :: "char \<Rightarrow> bool" where
  "is_space c = (c \<in> set [CHR '' '', CHR 0x09, CHR 0x0A, CHR 0x0D])"

definition is_lower :: "char \<Rightarrow> bool" where
  "is_lower c = (c \<in> set ''abcdefghijklmnopqrstuvwxyz'')"

definition digit_val :: "char \<Rightarrow> int" where
  "digit_val c = int (of_char c) - 48"

definition digits_val :: "string \<Rightarrow> int" where
  "digits_val ds = foldl (\<lambda>acc d. 10 * acc + digit_val d) 0 ds"

definition number_token :: "bool \<Rightarrow> string \<Rightarrow> token option" where
  "number_token neg ds =
     (if ds = [] \<or> (hd ds = CHR ''0'' \<and> length ds > 1) then None
      else Some (TInt (if neg then - digits_val ds else digits_val ds)))"

definition word_token :: "string \<Rightarrow> token option" where
  "word_token w =
     (if w = ''true'' then Some TTrue
      else if w = ''false'' then Some TFalse
      else if w = ''null'' then Some TNull
      else None)"

definition unescape :: "char \<Rightarrow> char option" where
  "unescape c =
     (if c = CHR 0x22 then Some (CHR 0x22)
      else if c = CHR 0x5C then Some (CHR 0x5C)
      else if c = CHR ''/'' then Some (CHR ''/'')
      else if c = CHR ''b'' then Some (CHR 0x08)
      else if c = CHR ''f'' then Some (CHR 0x0C)
      else if c = CHR ''n'' then Some (CHR 0x0A)
      else if c = CHR ''r'' then Some (CHR 0x0D)
      else if c = CHR ''t'' then Some (CHR 0x09)
      else None)"

definition emit :: "token option \<Rightarrow> token list option \<Rightarrow> token list option" where
  "emit t rest =
     (case t of None \<Rightarrow> None
      | Some tok \<Rightarrow> (case rest of None \<Rightarrow> None | Some ts \<Rightarrow> Some (tok # ts)))"

function lex :: "lexmode \<Rightarrow> string \<Rightarrow> token list option" where
  "lex LNormal [] = Some []"
| "lex LNormal (c # cs) =
     (if is_space c then lex LNormal cs
      else if c = CHR ''{'' then emit (Some TLBrace) (lex LNormal cs)
      else if c = CHR ''}'' then emit (Some TRBrace) (lex LNormal cs)
      else if c = CHR ''['' then emit (Some TLBracket) (lex LNormal cs)
      else if c = CHR '']'' then emit (Some TRBracket) (lex LNormal cs)
      else if c = CHR '':'' then emit (Some TColon) (lex LNormal cs)
      else if c = CHR '','' then emit (Some TComma) (lex LNormal cs)
      else if c = CHR 0x22 then lex (LString []) cs
      else if c = CHR ''-'' then lex (LNumber True []) cs
      else if is_digit c then lex (LNumber False [c]) cs
      else if is_lower c then lex (LWord [c]) cs
      else None)"
| "lex (LString acc) [] = None"
| "lex (LString acc) (c # cs) =
     (if c = CHR 0x22 then emit (Some (TString (rev acc))) (lex LNormal cs)
      else if c = CHR 0x5C then lex (LEscape acc) cs
      else if of_char c < (32::nat) then None
      else lex (LString (c # acc)) cs)"
| "lex (LEscape acc) [] = None"
| "lex (LEscape acc) (c # cs) =
     (case unescape c of None \<Rightarrow> None | Some e \<Rightarrow> lex (LString (e # acc)) cs)"
| "lex (LNumber neg ds) [] = emit (number_token neg (rev ds)) (Some [])"
| "lex (LNumber neg ds) (c # cs) =
     (if is_digit c then lex (LNumber neg (c # ds)) cs
      else emit (number_token neg (rev ds)) (lex LNormal (c # cs)))"
| "lex (LWord w) [] = emit (word_token (rev w)) (Some [])"
| "lex (LWord w) (c # cs) =
     (if is_lower c then lex (LWord (c # w)) cs
      else emit (word_token (rev w)) (lex LNormal (c # cs)))"
  by pat_completeness auto
termination
  by (relation "measures [\<lambda>(m, s). length s, \<lambda>(m, s). (case m of LNormal \<Rightarrow> 0 | _ \<Rightarrow> 1)]") auto

fun parse_value :: "nat \<Rightarrow> token list \<Rightarrow> (pyval \<times> token list) option"
  and parse_elements :: "nat \<Rightarrow> pyval list \<Rightarrow> token list \<Rightarrow> (pyval \<times> token list) option"
  and parse_members :: "nat \<Rightarrow> dict \<Rightarrow> token list \<Rightarrow> (pyval \<times> token list) option"
where
  "parse_value 0 ts = None"
| "parse_value (Suc n) ts =
     (case ts of
        [] \<Rightarrow> None
      | t # rest \<Rightarrow>
          (case t of
             TString s \<Rightarrow> Some (PyStr s, rest)
           | TInt i \<Rightarrow> Some (PyInt i, rest)
           | TTrue \<Rightarrow> Some (PyBool True, rest)
           | TFalse \<Rightarrow> Some (PyBool False, rest)
           | TNull \<Rightarrow> Some (PyNone, rest)
           | TLBracket \<Rightarrow>
               (case rest of
                  TRBracket # rest' \<Rightarrow> Some (PyList [], rest')
                | _ \<Rightarrow> parse_elements n [] rest)
           | TLBrace \<Rightarrow>
               (case rest of
                  TRBrace # rest' \<Rightarrow> Some (PyDict [], rest')
                | _ \<Rightarrow> parse_members n [] rest)
           | _ \<Rightarrow> None))"
| "parse_elements 0 acc ts = None"
| "parse_elements (Suc n) acc ts =
     (case parse_value n ts of
        None \<Rightarrow> None
      | Some (v, rest) \<Rightarrow>
          (case rest of
             TComma # rest' \<Rightarrow> parse_elements n (acc @ [v]) rest'
           | TRBracket # rest' \<Rightarrow> Some (PyList (acc @ [v]), rest')
           | _ \<Rightarrow> None))"
| "parse_members 0 acc ts = None"
| "parse_members (Suc n) acc ts =
     (case ts of
        TString k # TColon # rest0 \<Rightarrow>
          (case parse_value n rest0 of
             None \<Rightarrow> None
           | Some (v, rest) \<Rightarrow>
               (case rest of
                  TComma # rest' \<Rightarrow> parse_members n (AList.update k v acc) rest'
                | TRBrace # rest' \<Rightarrow> Some (PyDict (AList.update k v acc), rest')
                | _ \<Rightarrow> None))
      | _ \<Rightarrow> None)"

definition json_loads :: "string \<Rightarrow> pyval option" where
  "json_loads s =
     (case lex LNormal s of
        None \<Rightarrow> None
      | Some ts \<Rightarrow>
          (case parse_value (2 * length ts + 2) ts of
             Some (v, []) \<Rightarrow> Some v
           | _ \<Rightarrow> None))"

section \<open>Exceptions and Python helpers\<close>

text \<open>
  Every \<open>raise\<close> of the source and every exception of a Python operation the source can run
  into is a value of \<open>error\<close>; a function that can raise returns \<open>error + 'a\<close> with \<open>Inl\<close>
  for the exception. The four \<open>Exception(...)\<close> messages of the response parsers are one
  constructor each, \<open>InvocationFailed e\<close> is
  \<open>Exception(f"Bedrock model invocation failed: {e}")\<close>, and \<open>ClientError\<close> is whatever an
  external client raises.
\<close>

datatype error =
    KeyError string
  | AttributeError
  | TypeError
  | InvalidMessageContent
  | NoTextContent
  | TokenLimitExceeded
  | InvalidJsonResponse
  | InvocationFailed error
  | ClientError string

definition bindE :: "error + 'a \<Rightarrow> ('a \<Rightarrow> error + 'b) \<Rightarrow> error + 'b" where
  "bindE m f = (case m of Inl e \<Rightarrow> Inl e | Inr x \<Rightarrow> f x)"

text \<open>\<open>d[k]\<close> on a dictionary, and \<open>x.get(k, default)\<close> on an arbitrary object.\<close>

definition subscript :: "dict \<Rightarrow> string \<Rightarrow> error + pyval" where
  "subscript d k = (case map_of d k of Some v \<Rightarrow> Inr v | None \<Rightarrow> Inl (KeyError k))"

definition py_get :: "pyval \<Rightarrow> string \<Rightarrow> pyval \<Rightarrow> error + pyval" where
  "py_get x k dflt = (case x of PyDict d \<Rightarrow> Inr (dict_get d k dflt) | _ \<Rightarrow> Inl AttributeError)"

text \<open>
  \<open>len(x)\<close>, and the elements a \<open>for\<close> loop over \<open>x\<close> visits: the items of a list, the
  one-character strings of a string, the keys of a dictionary.
\<close>

definition py_len :: "pyval \<Rightarrow> error + nat" where
  "py_len x =
     (case x of
        PyStr s \<Rightarrow> Inr (length s)
      | PyList xs \<Rightarrow> Inr (length xs)
      | PyDict d \<Rightarrow> Inr (length d)
      | _ \<Rightarrow> Inl TypeError)"

definition py_iter :: "pyval \<Rightarrow> error + pyval list" where
  "py_iter x =
     (case x of
        PyStr s \<Rightarrow> Inr (map (\<lambda>c. PyStr [c]) s)
      | PyList xs \<Rightarrow> Inr xs
      | PyDict d \<Rightarrow> Inr (map (\<lambda>kv. PyStr (fst kv)) d)
      | _ \<Rightarrow> Inl TypeError)"

text \<open>
  A value inside an f-string: a string is inserted as it is, any other value as Python's
  built-in \<open>format\<close> renders it, which is the parameter \<open>fmt\<close>.
\<close>

definition py_format :: "(pyval \<Rightarrow> string) \<Rightarrow> pyval \<Rightarrow> string" where
  "py_format fmt v = (case v of PyStr s \<Rightarrow> s | _ \<Rightarrow> fmt v)"

definition nl :: string where
  "nl = [CHR 0x0A]"

fun str_join :: "string \<Rightarrow> string list \<Rightarrow> string" where
  "str_join sep [] = []"
| "str_join sep [x] = x"
| "str_join sep (x # y # ys) = x @ sep @ str_join sep (y # ys)"

definition digit_char :: "nat \<Rightarrow> char" where
  "digit_char d = char_of (48 + d)"

fun show_nat :: "nat \<Rightarrow> string" where
  "show_nat n = (if n < 10 then [digit_char n] else show_nat (n div 10) @ [digit_char (n mod 10)])"

text \<open>A loop body run over a list in order, stopping at the first exception.\<close>

fun map_results :: "('a \<Rightarrow> error + 'b) \<Rightarrow> 'a list \<Rightarrow> error + 'b list" where
  "map_results f [] = Inr []"
| "map_results f (x # xs) =
     (case f x of
        Inl e \<Rightarrow> Inl e
      | Inr y \<Rightarrow> (case map_results f xs of Inl e \<Rightarrow> Inl e | Inr ys \<Rightarrow> Inr (y # ys)))"

text \<open>\<open>enumerate(xs)\<close>.\<close>

definition enumerate_from0 :: "'a list \<Rightarrow> (nat \<times> 'a) list" where
  "enumerate_from0 xs = zip [0..<length xs] xs"

section \<open>Data classes\<close>

record BedrockKnowledgeDocument =
  content :: string
  content_length :: nat
  source :: pyval
  score :: pyval

record BedrockWorkItemEvaluationResponse =
  passed :: pyval
  comment :: pyval
  sources :: "pyval list"

record BedrockWorkItemGenerationResponse =
  work_items :: pyval
  documents :: "BedrockKnowledgeDocument list"

record BedrockInferenceParams =
  prompt :: "string option"
  temperature :: "real option"
  top_p :: "real option"
  max_tokens :: "int option"
  refinement_instructions :: "string option"
  generated_work_items :: "pyval list option"

text \<open>\<open>BedrockInferenceParams()\<close>: every field at its default \<open>None\<close>.\<close>

definition default_params :: BedrockInferenceParams where
  "default_params =
     \<lparr>prompt = None, temperature = None, top_p = None, max_tokens = None,
      refinement_instructions = None, generated_work_items = None\<rparr>"

definition MAX_OUTPUT_TOKENS :: int where
  "MAX_OUTPUT_TOKENS = 10240"

section \<open>Inference configuration of a generation call\<close>

text \<open>
  Lines 531-542 of \<open>_invoke_model_for_work_item_generation\<close>. The tests
  \<open>if params.temperature:\<close> and \<open>elif params.top_p:\<close> are truth-value tests of an optional
  float: \<open>None\<close> and \<open>0.0\<close> are both false.
\<close>

definition float_truthy :: "real option \<Rightarrow> bool" where
  "float_truthy x = (case x of None \<Rightarrow> False | Some r \<Rightarrow> r \<noteq> 0)"

definition int_truthy :: "int option \<Rightarrow> bool" where
  "int_truthy x = (case x of None \<Rightarrow> False | Some i \<Rightarrow> i \<noteq> 0)"

definition generation_inference_config :: "BedrockInferenceParams \<Rightarrow> dict" where
  "generation_inference_config params =
     (let inference_config =
            [(''maxTokens'',
              PyInt (if int_truthy (max_tokens params) then the (max_tokens params)
                     else MAX_OUTPUT_TOKENS))]
      in if float_truthy (temperature params) then
           AList.update ''temperature'' (PyFloat (the (temperature params))) inference_config
         else if float_truthy (top_p params) then
           AList.update ''topP'' (PyFloat (the (top_p params))) inference_config
         else
           AList.update ''temperature'' (PyFloat 0.5) inference_config)"

section \<open>Knowledge documents\<close>

text \<open>
  \<open>_process_knowledge_results\<close> (lines 211-235). The arguments of the debug log are evaluated
  before the document is built: \<open>len(content)\<close> and \<open>content[:100] + "..."\<close> raise unless the
  text is a string, so a document always holds a string, whole, with its length.
\<close>

definition process_knowledge_result :: "nat \<Rightarrow> pyval \<Rightarrow> error + BedrockKnowledgeDocument" where
  "process_knowledge_result idx result =
     bindE (py_get result ''content'' (PyDict [])) (\<lambda>c.
     bindE (py_get c ''text'' (PyStr [])) (\<lambda>text.
     bindE (py_get result ''location'' (PyDict [])) (\<lambda>location.
     bindE (py_get location ''s3Location'' (PyDict [])) (\<lambda>s3.
     bindE (py_get s3 ''uri'' (PyStr (''Document '' @ show_nat (idx + 1)))) (\<lambda>src.
     bindE (py_get result ''score'' (PyFloat 0)) (\<lambda>sc.
       (case text of
          PyStr s \<Rightarrow> Inr \<lparr>content = s, content_length = length s, source = src, score = sc\<rparr>
        | _ \<Rightarrow> Inl TypeError)))))))"

definition process_knowledge_results :: "pyval \<Rightarrow> error + BedrockKnowledgeDocument list" where
  "process_knowledge_results results =
     bindE (py_iter results) (\<lambda>rs.
       map_results (\<lambda>(idx, result). process_knowledge_result idx result) (enumerate_from0 rs))"

section \<open>Knowledge previews in the user prompts\<close>

text \<open>
  The knowledge section of the three user prompts: lines 358-360 of
  \<open>_build_work_item_evaluation_user_prompt\<close>, lines 695-697 of
  \<open>_build_work_item_generation_user_prompt\<close> and lines 810-814 of
  \<open>_build_work_item_refinement_user_prompt\<close>.
\<close>

definition evaluation_knowledge_section :: "BedrockKnowledgeDocument list \<Rightarrow> string" where
  "evaluation_knowledge_section knowledge_context =
     (if knowledge_context \<noteq> [] then
        str_join nl (map (\<lambda>doc. ''- '' @ py_prefix (content doc) 500 @ ''...'') knowledge_context)
      else [])"

definition generation_knowledge_section :: "BedrockKnowledgeDocument list \<Rightarrow> string" where
  "generation_knowledge_section knowledge_context =
     (if knowledge_context \<noteq> [] then
        str_join nl (map (\<lambda>doc. ''- '' @ py_prefix (content doc) 500 @ ''...'') knowledge_context)
      else [])"

definition refinement_knowledge_section :: "BedrockKnowledgeDocument list \<Rightarrow> string" where
  "refinement_knowledge_section knowledge_context =
     (if knowledge_context \<noteq> [] then
        nl @ nl @ ''Reference Context:'' @ nl @
        str_join nl (map (\<lambda>doc. ''- '' @ py_prefix (content doc) 300 @ ''...'') knowledge_context)
      else [])"

section \<open>Work-item type tests\<close>

definition is_user_story :: "dict \<Rightarrow> bool" where
  "is_user_story work_item = (dict_get work_item ''workItemType'' (PyStr []) = PyStr ''User Story'')"

definition is_product_backlog_item :: "dict \<Rightarrow> bool" where
  "is_product_backlog_item work_item =
     (dict_get work_item ''workItemType'' (PyStr []) = PyStr ''Product Backlog Item'')"

definition is_epic :: "dict \<Rightarrow> bool" where
  "is_epic work_item = (dict_get work_item ''workItemType'' (PyStr []) = PyStr ''Epic'')"

definition is_feature :: "dict \<Rightarrow> bool" where
  "is_feature work_item = (dict_get work_item ''workItemType'' (PyStr []) = PyStr ''Feature'')"

definition is_user_story_or_pbi :: "dict \<Rightarrow> bool" where
  "is_user_story_or_pbi work_item = (is_user_story work_item \<or> is_product_backlog_item work_item)"

definition is_epic_or_feature :: "dict \<Rightarrow> bool" where
  "is_epic_or_feature work_item = (is_epic work_item \<or> is_feature work_item)"

section \<open>Pieces shared by the prompt builders\<close>

text \<open>
  The source repeats the following statements in several builders; each is one definition
  here, with the literal text that differs from builder to builder as an argument.
  \<open>or_none s\<close> is \<open>s or 'None'\<close>. \<open>criteria_text\<close> is the \<open>if\<close>/\<open>elif\<close> that sets
  \<open>criteria_section\<close> (\<open>criteria_field\<close> in the queries). \<open>optional_field\<close> is
  \<open>if work_item.get(k): fields.append(f"label{work_item[k]}")\<close>, and \<open>joined_fields\<close> is
  \<open>if fields: section = "\n" + "\n".join(fields)\<close>.
\<close>

definition or_none :: "string \<Rightarrow> string" where
  "or_none s = (if s = [] then ''None'' else s)"

definition criteria_text :: "(pyval \<Rightarrow> string) \<Rightarrow> string \<Rightarrow> string \<Rightarrow> dict \<Rightarrow> string" where
  "criteria_text fmt acceptance_label success_label work_item =
     (if is_user_story_or_pbi work_item \<and> truthy (dict_get_none work_item ''acceptanceCriteria'') then
        acceptance_label @ py_format fmt (dict_get_none work_item ''acceptanceCriteria'')
      else if is_epic_or_feature work_item \<and> truthy (dict_get_none work_item ''successCriteria'') then
        success_label @ py_format fmt (dict_get_none work_item ''successCriteria'')
      else [])"

definition optional_field :: "(pyval \<Rightarrow> string) \<Rightarrow> dict \<Rightarrow> string \<Rightarrow> string \<Rightarrow> string list" where
  "optional_field fmt d k label =
     (if truthy (dict_get_none d k) then [label @ py_format fmt (dict_get_none d k)] else [])"

definition joined_fields :: "string list \<Rightarrow> string" where
  "joined_fields fs = (if fs \<noteq> [] then nl @ str_join nl fs else [])"

definition epic_fields :: "(pyval \<Rightarrow> string) \<Rightarrow> dict \<Rightarrow> string list" where
  "epic_fields fmt work_item =
     optional_field fmt work_item ''objective'' ''  - Objective: '' @
     optional_field fmt work_item ''addressedRisks'' ''  - Addressed Risks: '' @
     optional_field fmt work_item ''pursueRisk'' ''  - Pursue Risk: '' @
     optional_field fmt work_item ''mostRecentUpdate'' ''  - Most Recent Update: '' @
     optional_field fmt work_item ''outstandingActionItems'' ''  - Outstanding Action Items: ''"

definition pbi_fields :: "(pyval \<Rightarrow> string) \<Rightarrow> dict \<Rightarrow> string list" where
  "pbi_fields fmt work_item =
     optional_field fmt work_item ''releaseNotes'' ''  - Release Notes: '' @
     optional_field fmt work_item ''qaNotes'' ''  - QA Notes: ''"

text \<open>
  The numbered list of image references, built alike in the evaluation and the generation
  user prompt. An entry that is no dictionary has no \<open>get\<close>; an \<open>alt\<close> that is truthy but
  no string cannot be added to a string.
\<close>

definition image_line :: "(pyval \<Rightarrow> string) \<Rightarrow> nat \<times> pyval \<Rightarrow> error + string" where
  "image_line fmt p =
     (case snd p of
        PyDict img \<Rightarrow>
          (let head = show_nat (fst p + 1) @ ''. '' @ py_format fmt (dict_get img ''url'' (PyStr []))
           in if truthy (dict_get_none img ''alt'') then
                (case dict_get img ''alt'' (PyStr []) of
                   PyStr alt \<Rightarrow> Inr (head @ '' ('' @ alt @ '')'')
                 | _ \<Rightarrow> Inl TypeError)
              else Inr head)
      | _ \<Rightarrow> Inl AttributeError)"

definition build_images_section :: "(pyval \<Rightarrow> string) \<Rightarrow> dict \<Rightarrow> error + string" where
  "build_images_section fmt work_item =
     (let images = dict_get work_item ''images'' (PyList [])
      in if truthy images then
           bindE (py_iter images) (\<lambda>imgs.
           bindE (map_results (image_line fmt) (enumerate_from0 imgs)) (\<lambda>ls.
             Inr (str_join nl ls)))
         else Inr [])"

section \<open>Knowledge-base queries\<close>

text \<open>\<open>_build_work_item_evaluation_knowledge_query\<close> (lines 120-133).\<close>

definition build_work_item_evaluation_knowledge_query ::
  "(pyval \<Rightarrow> string) \<Rightarrow> dict \<Rightarrow> error + string" where
  "build_work_item_evaluation_knowledge_query fmt work_item =
     (let criteria_field =
            criteria_text fmt (nl @ ''    - Acceptance Criteria: '')
              (nl @ ''    - Success Criteria: '') work_item;
          criteria_type =
            (if is_user_story_or_pbi work_item then ''Acceptance Criteria'' else ''Success Criteria'')
      in bindE (subscript work_item ''workItemType'') (\<lambda>work_item_type.
         bindE (subscript work_item ''title'') (\<lambda>title.
         bindE (subscript work_item ''description'') (\<lambda>description.
           Inr (
           str_join nl
            [''Find relevant information about the '' @ py_format fmt work_item_type @
              '' process and guidelines that would help evaluate the following '' @
              py_format fmt work_item_type @ '' is well-defined:'',
             ''    - Title: '' @ py_format fmt title,
             ''    - Description: '' @ py_format fmt description,
             ''    - '' @ criteria_type @ '': '' @ criteria_field])))))"

text \<open>\<open>_build_work_item_breakdown_knowledge_query\<close> (lines 135-145).\<close>

definition build_work_item_breakdown_knowledge_query ::
  "(pyval \<Rightarrow> string) \<Rightarrow> dict \<Rightarrow> error + string" where
  "build_work_item_breakdown_knowledge_query fmt work_item =
     (let criteria_field =
            criteria_text fmt (nl @ ''    - Acceptance Criteria: '')
              (nl @ ''    - Success Criteria: '') work_item
      in bindE (subscript work_item ''workItemType'') (\<lambda>work_item_type.
         bindE (subscript work_item ''title'') (\<lambda>title.
         bindE (subscript work_item ''description'') (\<lambda>description.
           Inr (
           str_join nl
            [''Find relevant information to help break down the '' @
              py_format fmt work_item_type @
              '' (such as technical details, application architecture, business '' @
              ''context, etc.) for the following '' @ py_format fmt work_item_type @ '':'',
             ''    - Title: '' @ py_format fmt title,
             ''    - Description: '' @ py_format fmt description @ criteria_field])))))"

text \<open>\<open>_build_work_item_evaluation_filters\<close> (lines 147-156).\<close>

definition build_work_item_evaluation_filters :: "pyval \<Rightarrow> dict" where
  "build_work_item_evaluation_filters work_item_type =
     [(''filter'', PyDict [(''andAll'', PyList
       [equals_condition ''workItemType'' work_item_type,
        equals_condition ''areaPath'' (PyStr ''agile-process'')])])]"

section \<open>Evaluation prompts\<close>

text \<open>\<open>_build_work_item_evaluation_system_prompt\<close> (lines 313-352).\<close>

definition evaluation_criteria_pbi :: string where
  "evaluation_criteria_pbi =
     str_join nl
      [''- Evaluate the product backlog item based on the following criteria:'',
       ''  - It should generally state the user, the need, and the business '' @
        ''value in some way.'',
       ''  - The acceptance criteria should provide guidance that is testable '' @
        ''or verifiable, though it need not be exhaustive.'',
       ''  - The story should be appropriately sized for a development team to '' @
        ''complete within a sprint.'']"

definition evaluation_criteria_user_story :: string where
  "evaluation_criteria_user_story =
     str_join nl
      [''- Evaluate the user story based on the following criteria:'',
       ''  - It should generally state the user, the need, and the business '' @
        ''value in some way.'',
       ''  - The acceptance criteria should provide guidance that is testable '' @
        ''or verifiable, though it need not be exhaustive.'',
       ''  - The story should be appropriately sized for a development team to '' @
        ''complete within a sprint.'']"

definition evaluation_criteria_epic :: string where
  "evaluation_criteria_epic =
     str_join nl
      [''- Evaluate the epic based on the following criteria:'',
       ''  - It should clearly describe a high-level business objective or '' @
        ''strategic goal.'',
       ''  - The description should provide sufficient business context and '' @ ''rationale.'',
       ''  - Success criteria should define measurable outcomes or business '' @ ''value.'',
       ''  - The scope should be appropriate for breaking down into multiple '' @ ''features.'']"

definition evaluation_criteria_feature :: string where
  "evaluation_criteria_feature =
     str_join nl
      [''- Evaluate the feature based on the following criteria:'',
       ''  - It should describe a cohesive piece of functionality that '' @
        ''delivers user value.'',
       ''  - The description should clearly define the functional boundaries '' @
        ''and user interactions.'',
       ''  - Success criteria should be testable and define what constitutes '' @
        ''completion.'',
       ''  - The scope should be appropriate for breaking down into multiple '' @
        ''user stories.'']"

definition build_work_item_evaluation_system_prompt :: "(pyval \<Rightarrow> string) \<Rightarrow> dict \<Rightarrow> string" where
  "build_work_item_evaluation_system_prompt fmt work_item =
     (let work_item_type = dict_get work_item ''workItemType'' (PyStr []);
          evaluation_criteria =
            (if work_item_type = PyStr ''Product Backlog Item'' then evaluation_criteria_pbi
             else if work_item_type = PyStr ''User Story'' then evaluation_criteria_user_story
             else if work_item_type = PyStr ''Epic'' then evaluation_criteria_epic
             else if work_item_type = PyStr ''Feature'' then evaluation_criteria_feature
             else [])
      in
      str_join nl
       [''You are an AI assistant that reviews Azure DevOps work items. '',
        ''**Instructions**'',
        ''- Evaluate the work item to check if it is reasonably clear and has '' @
         ''enough detail for a developer or team to begin with minimal '' @ ''clarification.'',
        ''- Your task is to assess the quality of a '' @ py_format fmt work_item_type @
         '' based on the provided title, description, and available criteria '' @ ''fields.'',
        evaluation_criteria,
        ''  - If images are provided, treat them as additional context to '' @
         ''understand the work item.'',
        [],
        ''**Output Rules**'',
        ''- Return a JSON object with the following structure:'',
        ''  - '' @ [CHR 0x22] @ ''pass'' @ [CHR 0x22] @
         '': boolean (true if the work item is good enough to proceed, false '' @
         ''only if it is seriously incomplete or confusing)'',
        ''  - if '' @ [CHR 0x22] @ ''pass'' @ [CHR 0x22] @ '' is false, include a '' @
         [CHR 0x22] @ ''comment'' @ [CHR 0x22] @
         '' field (string) with a clear explanation of what'' @ [CHR 0x27] @
         ''s missing or unclear, and provide an example of a higher-quality '' @
         py_format fmt work_item_type @
         '' that would pass. If you have multiple feedback points, use line '' @
         ''breaks and indentations with HTML tags.'',
        ''- Only output the JSON object, no extra text outside it.''])"

text \<open>\<open>_build_work_item_evaluation_user_prompt\<close> (lines 354-430).\<close>

definition build_work_item_evaluation_user_prompt ::
  "(pyval \<Rightarrow> string) \<Rightarrow> dict \<Rightarrow> BedrockKnowledgeDocument list \<Rightarrow> error + string" where
  "build_work_item_evaluation_user_prompt fmt work_item knowledge_context =
     (let knowledge_section = evaluation_knowledge_section knowledge_context
      in bindE (build_images_section fmt work_item) (\<lambda>images_section.
         (let criteria_section =
                criteria_text fmt (nl @ ''  - Acceptance Criteria: '')
                  (nl @ ''  - Success Criteria: '') work_item;
              epic_fields_section =
                (if is_epic work_item then joined_fields (epic_fields fmt work_item) else []);
              feature_fields_section =
                (if is_feature work_item \<and> truthy (dict_get_none work_item ''businessDeliverable'')
                 then nl @ ''  - Business Deliverable: '' @
                      py_format fmt (dict_get_none work_item ''businessDeliverable'')
                 else []);
              pbi_fields_section =
                (if is_product_backlog_item work_item then joined_fields (pbi_fields fmt work_item)
                 else []);
              user_story_fields_section =
                (if is_user_story work_item \<and> truthy (dict_get_none work_item ''importance'')
                 then nl @ ''  - Importance: '' @ py_format fmt (dict_get_none work_item ''importance'')
                 else [])
          in Inr (
             str_join nl
              [''**Context**'',
               ''- Work item: '',
               ''Use this information to understand the scope and expectation for '' @
                ''evaluation.'',
               ''  - Work Item Type: '' @
                py_format fmt (dict_get work_item ''workItemType'' (PyStr [])),
               ''  - Title: '' @ py_format fmt (dict_get work_item ''title'' (PyStr [])),
               ''  - Description: '' @
                py_format fmt (dict_get work_item ''description'' (PyStr [])),
               ''  '' @ criteria_section,
               ''  '' @ epic_fields_section @ feature_fields_section @ pbi_fields_section @
                user_story_fields_section,
               ''      '',
               ''- Additional contextual knowledge (if any):'',
               ''Extra domain knowledge, system information, or reference material to '' @
                ''guide more context-aware and accurate evaluation.'',
               ''  '' @ or_none knowledge_section,
               [],
               ''- Images (if any):'',
               ''Visual aids or references that provide additional context for '' @
                ''evaluation.'',
               ''  '' @ or_none images_section]))))"

section \<open>Generation prompts\<close>

text \<open>
  The default prompts and the output rules of \<open>_build_work_item_generation_system_prompt\<close>
  (lines 591-678).
\<close>

definition default_prompt_pbi :: string where
  "default_prompt_pbi =
     str_join nl
      [''You are an expert Agile software development assistant that '' @
        ''specializes in decomposing a Product Backlog Item into clear, '' @
        ''actionable, and appropriately sized Tasks.'',
       ''**Instructions**'',
       ''- Your task is to break down the provided Product Backlog Item into a '' @
        ''sequence of Tasks that are clear and actionable for developers to '' @
        ''work on. Each task should be independent and deployable.'',
       ''- Ensure each Task has a title and a description that guides the '' @
        ''developer (why, what, how, technical details, references to relevant '' @
        ''systems/APIs).'',
       ''- Avoid creating duplicate Tasks if they already exist.'',
       ''- Do NOT create any Tasks for analysis, investigation, testing, or '' @
        ''deployment.'']"

definition default_prompt_user_story :: string where
  "default_prompt_user_story =
     str_join nl
      [''You are an expert Agile software development assistant that '' @
        ''specializes in decomposing a User Story into clear, actionable, and '' @
        ''appropriately sized Tasks.'',
       ''**Instructions**'',
       ''- Your task is to break down the provided User Story into a sequence '' @
        ''of Tasks that are clear and actionable for developers to work on. '' @
        ''Each task should be independent and deployable.'',
       ''- Ensure each Task has a title and a description that guides the '' @
        ''developer (why, what, how, technical details, references to relevant '' @
        ''systems/APIs).'',
       ''- Avoid creating duplicate Tasks if they already exist.'',
       ''- Do NOT create any Tasks for analysis, investigation, testing, or '' @
        ''deployment.'']"

definition default_prompt_feature_scrum :: string where
  "default_prompt_feature_scrum =
     str_join nl
      [''You are an expert Agile software development assistant that '' @
        ''specializes in decomposing a Feature into clear, actionable, and '' @
        ''appropriately sized Product Backlog Items.'',
       ''**Instructions**'',
       ''- Your task is to break down the provided Feature into a sequence of '' @
        ''Product Backlog Items that are clear and deliver business value.'',
       ''- Ensure each Product Backlog Item has a title, description, and '' @
        ''acceptance criteria.'',
       ''- Avoid creating duplicate Product Backlog Items if they already '' @ ''exist.'']"

definition default_prompt_feature :: string where
  "default_prompt_feature =
     str_join nl
      [''You are an expert Agile software development assistant that '' @
        ''specializes in decomposing a Feature into clear, actionable, and '' @
        ''appropriately sized User Stories.'',
       ''**Instructions**'',
       ''- Your task is to break down the provided Feature into a sequence of '' @
        ''User Stories that are clear and deliver business value.'',
       ''- Ensure each User Story has a title, description, and acceptance '' @ ''criterial.'',
       ''- Avoid creating duplicate User Stories if they already exist.'']"

definition default_prompt_epic :: string where
  "default_prompt_epic =
     str_join nl
      [''You are an expert Agile software development assistant that '' @
        ''specializes in decomposing an Epic into clear, actionable, and '' @
        ''appropriately sized Features.'',
       ''**Instructions**'',
       ''- Your task is to break down the provided Epic into a sequence of '' @
        ''Features that are clear and deliver business value.'',
       ''- Ensure each Feature has a title and a comprehensive description.'',
       ''- Avoid creating duplicate Features if they already exist.'']"

definition default_generation_prompt :: "dict \<Rightarrow> string" where
  "default_generation_prompt work_item =
     (let work_item_type = dict_get work_item ''workItemType'' (PyStr []);
          process_template = dict_get work_item ''processTemplate'' (PyStr [])
      in if work_item_type = PyStr ''Product Backlog Item'' then default_prompt_pbi
         else if work_item_type = PyStr ''User Story'' then default_prompt_user_story
         else if work_item_type = PyStr ''Feature'' then
           (if process_template = PyStr ''Scrum'' then default_prompt_feature_scrum
            else default_prompt_feature)
         else if work_item_type = PyStr ''Epic'' then default_prompt_epic
         else [])"

definition output_rules_task :: "string \<Rightarrow> string" where
  "output_rules_task base_prompt =
     str_join nl
      [base_prompt,
       [],
       ''**Output Rules**'',
       ''- ONLY return a JSON object with the following structure:'',
       ''  - '' @ [CHR 0x22] @ ''workItems'' @ [CHR 0x22] @
        '': array of task objects, each with:'',
       ''    - '' @ [CHR 0x22] @ ''title'' @ [CHR 0x22] @
        '': string (task title, prefixed with order, e.g., '' @ [CHR 0x22] @ ''1. Task Title'' @
        [CHR 0x22] @ '')'',
       ''    - '' @ [CHR 0x22] @ ''description'' @ [CHR 0x22] @
        '': string (detailed task description with HTML formatting)'',
       ''- DO NOT output any text outside of the JSON object.'']"

definition output_rules_pbi :: "string \<Rightarrow> string" where
  "output_rules_pbi base_prompt =
     str_join nl
      [base_prompt,
       [],
       ''**Output Rules**'',
       ''- ONLY return a JSON object with the following structure:'',
       ''  - '' @ [CHR 0x22] @ ''workItems'' @ [CHR 0x22] @
        '': array of product backlog item objects, each with:'',
       ''    - '' @ [CHR 0x22] @ ''title'' @ [CHR 0x22] @
        '': string (product backlog item title, prefixed with order, e.g., '' @ [CHR 0x22] @
        ''1. Product Backlog Item Title'' @ [CHR 0x22] @ '')'',
       ''    - '' @ [CHR 0x22] @ ''description'' @ [CHR 0x22] @
        '': string (detailed product backlog item description with HTML '' @ ''formatting)'',
       ''    - '' @ [CHR 0x22] @ ''acceptanceCriteria'' @ [CHR 0x22] @
        '': string (detailed acceptance criteria with HTML formatting)'',
       ''- DO NOT output any text outside of the JSON object.'']"

definition output_rules_user_story :: "string \<Rightarrow> string" where
  "output_rules_user_story base_prompt =
     str_join nl
      [base_prompt,
       [],
       ''**Output Rules**'',
       ''- ONLY return a JSON object with the following structure:'',
       ''  - '' @ [CHR 0x22] @ ''workItems'' @ [CHR 0x22] @
        '': array of user story objects, each with:'',
       ''    - '' @ [CHR 0x22] @ ''title'' @ [CHR 0x22] @
        '': string (user story title, prefixed with order, e.g., '' @ [CHR 0x22] @
        ''1. User Story Title'' @ [CHR 0x22] @ '')'',
       ''    - '' @ [CHR 0x22] @ ''description'' @ [CHR 0x22] @
        '': string (detailed user story description with HTML formatting)'',
       ''    - '' @ [CHR 0x22] @ ''acceptanceCriteria'' @ [CHR 0x22] @
        '': string (detailed acceptance criteria with HTML formatting)'',
       ''- DO NOT output any text outside of the JSON object.'']"

definition output_rules_feature :: "string \<Rightarrow> string" where
  "output_rules_feature base_prompt =
     str_join nl
      [base_prompt,
       [],
       ''**Output Rules**'',
       ''- ONLY return a JSON object with the following structure:'',
       ''  - '' @ [CHR 0x22] @ ''workItems'' @ [CHR 0x22] @
        '': array of feature objects, each with:'',
       ''    - '' @ [CHR 0x22] @ ''title'' @ [CHR 0x22] @
        '': string (feature title, prefixed with order, e.g., '' @ [CHR 0x22] @
        ''1. Feature Title'' @ [CHR 0x22] @ '')'',
       ''    - '' @ [CHR 0x22] @ ''description'' @ [CHR 0x22] @
        '': string (detailed feature description with HTML formatting)'',
       ''    - '' @ [CHR 0x22] @ ''successCriteria'' @ [CHR 0x22] @
        '': string (detailed success criteria with HTML formatting)'',
       ''- DO NOT output any text outside of the JSON object.'']"

text \<open>
  The second half of the builder: the output rules are appended to the base prompt by work
  item type; for any other type the base prompt is returned as it is.
\<close>

definition with_output_rules :: "(pyval \<Rightarrow> string) \<Rightarrow> dict \<Rightarrow> pyval \<Rightarrow> pyval" where
  "with_output_rules fmt work_item base_prompt =
     (let work_item_type = dict_get work_item ''workItemType'' (PyStr []);
          process_template = dict_get work_item ''processTemplate'' (PyStr [])
      in if work_item_type \<in> set [PyStr ''Product Backlog Item'', PyStr ''User Story''] then
           PyStr (output_rules_task (py_format fmt base_prompt))
         else if work_item_type = PyStr ''Feature'' then
           (if process_template = PyStr ''Scrum'' then
              PyStr (output_rules_pbi (py_format fmt base_prompt))
            else PyStr (output_rules_user_story (py_format fmt base_prompt)))
         else if work_item_type = PyStr ''Epic'' then
           PyStr (output_rules_feature (py_format fmt base_prompt))
         else base_prompt)"

text \<open>
  The summary of one existing child work item in \<open>_build_work_item_generation_user_prompt\<close>
  (lines 741-769): \<open>details\<close> starts with the numbered title and grows by one line for
  each field that is present.
\<close>

definition child_optional :: "(pyval \<Rightarrow> string) \<Rightarrow> dict \<Rightarrow> string \<Rightarrow> string \<Rightarrow> string" where
  "child_optional fmt item k label =
     (if truthy (dict_get_none item k) then nl @ label @ py_format fmt (dict_get_none item k) else [])"

definition child_details :: "(pyval \<Rightarrow> string) \<Rightarrow> string \<Rightarrow> nat \<times> pyval \<Rightarrow> error + string" where
  "child_details fmt child_work_item_type p =
     (case snd p of
        PyDict item \<Rightarrow>
          (let details = show_nat (fst p + 1) @ ''. '' @ py_format fmt (dict_get item ''title'' (PyStr []))
           in if child_work_item_type = ''Features'' then
                Inr (details @
                  child_optional fmt item ''businessDeliverable'' ''   Business Deliverable: '' @
                  child_optional fmt item ''successCriteria'' ''   Success Criteria: '')
              else if child_work_item_type = ''Product Backlog Items'' then
                Inr (details @
                  child_optional fmt item ''description'' ''   Description: '' @
                  child_optional fmt item ''acceptanceCriteria'' ''   Acceptance Criteria: '' @
                  child_optional fmt item ''releaseNotes'' ''   Release Notes: '' @
                  child_optional fmt item ''qaNotes'' ''   QA Notes: '')
              else if child_work_item_type = ''User Stories'' then
                Inr (details @
                  child_optional fmt item ''description'' ''   Description: '' @
                  child_optional fmt item ''acceptanceCriteria'' ''   Acceptance Criteria: '' @
                  child_optional fmt item ''importance'' ''   Importance: '')
              else
                Inr (details @ child_optional fmt item ''description'' ''   Description: ''))
      | _ \<Rightarrow> Inl AttributeError)"

text \<open>\<open>_build_work_item_generation_user_prompt\<close> (lines 680-790).\<close>

definition build_work_item_generation_user_prompt ::
  "(pyval \<Rightarrow> string) \<Rightarrow> dict \<Rightarrow> pyval list \<Rightarrow> BedrockKnowledgeDocument list \<Rightarrow> error + string" where
  "build_work_item_generation_user_prompt fmt work_item existing_child_work_items knowledge_context =
     bindE (build_images_section fmt work_item) (\<lambda>images_section.
       (let knowledge_section = generation_knowledge_section knowledge_context;
            criteria_section =
              criteria_text fmt (nl @ ''  - Acceptance Criteria: '')
                (nl @ ''  - Success Criteria: '') work_item;
            type_specific_fields =
              (if is_epic work_item then joined_fields (epic_fields fmt work_item)
               else if is_feature work_item \<and> truthy (dict_get_none work_item ''businessDeliverable'')
               then nl @ ''  - Business Deliverable: '' @
                    py_format fmt (dict_get_none work_item ''businessDeliverable'')
               else if is_product_backlog_item work_item then joined_fields (pbi_fields fmt work_item)
               else if is_user_story work_item \<and> truthy (dict_get_none work_item ''importance'')
               then nl @ ''  - Importance: '' @ py_format fmt (dict_get_none work_item ''importance'')
               else []);
            child_work_item_type =
              (case get_expected_child_work_item_type work_item True of
                 Some t \<Rightarrow> t | None \<Rightarrow> ''child work items'')
        in bindE (if existing_child_work_items \<noteq> [] then
                    bindE (map_results (child_details fmt child_work_item_type)
                             (enumerate_from0 existing_child_work_items))
                      (\<lambda>items. Inr (str_join (nl @ nl) items))
                  else Inr ''None'') (\<lambda>existing_child_work_items_list.
             Inr (
             str_join nl
              [''**Context**'',
               ''- Work item:'',
               ''Use this information to understand the scope and expectation to '' @
                ''generate relevant tasks.'',
               ''  - Work Item Type: '' @
                py_format fmt (dict_get work_item ''workItemType'' (PyStr [])),
               ''  - Title: '' @ py_format fmt (dict_get work_item ''title'' (PyStr [])),
               ''  - Description: '' @
                py_format fmt (dict_get work_item ''description'' (PyStr [])) @ criteria_section @
                type_specific_fields,
               [],
               ''- Existing '' @ child_work_item_type @ '' (if any):'',
               ''Current '' @ child_work_item_type @ '' already created for this '' @
                py_format fmt (dict_get work_item ''workItemType'' (PyStr [])) @
                ''. Avoid duplicating these; generate only missing or supplementary '' @
                child_work_item_type @ '' for completeness.'',
               ''  '' @ existing_child_work_items_list,
               [],
               ''- Images (if any):'',
               ''Visual aids or references that provide additional context for task '' @
                ''generation.'',
               ''  '' @ or_none images_section,
               ''      '',
               ''- Additional contextual knowledge (if any):'',
               ''Extra domain knowledge, system information, or reference material to '' @
                ''guide more context-aware and accurate task generation.'',
               ''  '' @ or_none knowledge_section]))))"

section \<open>Refinement prompt\<close>

text \<open>
  \<open>re.sub(r'<[^>]*>', '', s)\<close>: every \<open><\<close> that has a \<open>>\<close> somewhere after it is removed
  together with the text up to the nearest \<open>>\<close>; the second argument of \<open>strip_tags\<close> tells
  whether the scan is inside such a tag.
\<close>

fun strip_tags :: "bool \<Rightarrow> string \<Rightarrow> string" where
  "strip_tags inside [] = []"
| "strip_tags False (c # cs) =
     (if c = CHR ''<'' \<and> CHR ''>'' \<in> set cs then strip_tags True cs else c # strip_tags False cs)"
| "strip_tags True (c # cs) =
     (if c = CHR ''>'' then strip_tags False cs else strip_tags True cs)"

definition draft_entry :: "(pyval \<Rightarrow> string) \<Rightarrow> nat \<times> pyval \<Rightarrow> error + string" where
  "draft_entry fmt p =
     (case snd p of
        PyDict item \<Rightarrow>
          (case dict_get item ''description'' (PyStr []) of
             PyStr description \<Rightarrow>
               Inr (show_nat (fst p + 1) @ ''. '' @ py_format fmt (dict_get item ''title'' (PyStr [])) @
                    nl @ ''   Description: '' @ py_prefix (strip_tags False description) 150 @ ''...'')
           | _ \<Rightarrow> Inl TypeError)
      | _ \<Rightarrow> Inl AttributeError)"

text \<open>
  \<open>_build_work_item_refinement_user_prompt\<close> (lines 792-839). The source computes
  \<open>knowledge_section\<close> (\<open>refinement_knowledge_section\<close> above) and never uses it: the
  returned text does not mention it, nor the existing child work items.
\<close>

definition build_work_item_refinement_user_prompt ::
  "(pyval \<Rightarrow> string) \<Rightarrow> dict \<Rightarrow> pyval list \<Rightarrow> string \<Rightarrow> pyval list \<Rightarrow>
   BedrockKnowledgeDocument list \<Rightarrow> error + string" where
  "build_work_item_refinement_user_prompt fmt work_item draft_work_items instructions
       existing_child_work_items knowledge_context =
     (let child_work_item_type =
            (case get_expected_child_work_item_type work_item True of
               Some t \<Rightarrow> t | None \<Rightarrow> ''child work items'')
      in bindE (map_results (draft_entry fmt) (enumerate_from0 draft_work_items)) (\<lambda>entries.
         (let draft_list = str_join (nl @ nl) entries;
              knowledge_section = refinement_knowledge_section knowledge_context;
              criteria_section =
                (if is_user_story_or_pbi work_item \<and>
                    truthy (dict_get_none work_item ''acceptanceCriteria'')
                 then nl @ ''Required Criteria: '' @
                      py_format fmt (dict_get_none work_item ''acceptanceCriteria'')
                 else [])
          in Inr (
             str_join nl
              [''**Refinement Request**'',
               [],
               ''You have previously generated a list of '' @ child_work_item_type @
                '' for the '' @ py_format fmt (dict_get work_item ''workItemType'' (PyStr [])) @
                '': '' @ [CHR 0x22] @ py_format fmt (dict_get work_item ''title'' (PyStr [])) @
                [CHR 0x22] @ ''.'',
               ''Criteria: '' @ criteria_section,
               [],
               ''**Current Draft List:**'',
               draft_list,
               [],
               ''**User Instructions:**'',
               [CHR 0x22] @ instructions @ [CHR 0x22],
               [],
               ''**Task:**'',
               ''Update the list of '' @ child_work_item_type @
                '' based on the User Instructions. '',
               ''- If the user asks to add something, add it as a new item.'',
               ''- If the user asks to remove something, remove it.'',
               ''- If the user asks to change details, update the relevant item.'',
               ''- Keep the rest of the list stable unless the instructions imply '' @
                ''broader changes.'',
               ''- Ensure all items remain clear, actionable, and appropriately sized.'',
               [],
               ''Return the COMPLETE updated list of work items in the specified JSON '' @
                ''format.'']))))"

section \<open>Collaborators and effects\<close>

text \<open>
  The service talks to four external collaborators: the knowledge-base client
  (\<open>retrieve\<close>), the configuration table (\<open>get_item\<close>), the image fetch of the tracking
  system (\<open>AzureService().fetch_image\<close>, whose result is a base64 text or \<open>None\<close>) and the
  inference client (\<open>converse\<close>). Each is a field of \<open>environment\<close>: a function from the
  arguments of the call to its outcome, \<open>Inl\<close> when it raises. The library functions
  \<open>json.loads\<close>, \<open>base64.b64decode\<close> and \<open>format\<close> are fields as well.

  An effectful function returns an \<open>outcome\<close>: the calls it made to the collaborators, in
  order, and its result or exception. \<open>bindO\<close> sequences two steps, \<open>catchO\<close> is
  \<open>try: ... except Exception as e: ...\<close>.
\<close>

type_synonym bytes = string

datatype content_block = TextBlock string | ImageBlock string bytes

datatype call =
    RetrieveCall string string pyval
  | GetItemCall string string
  | FetchImageCall pyval
  | ConverseCall string "content_block list" dict pyval

record environment =
  env_retrieve :: "string \<Rightarrow> string \<Rightarrow> pyval \<Rightarrow> error + pyval"
  env_get_item :: "string \<Rightarrow> string \<Rightarrow> error + pyval"
  env_fetch_image :: "pyval \<Rightarrow> error + string option"
  env_converse :: "string \<Rightarrow> content_block list \<Rightarrow> dict \<Rightarrow> pyval \<Rightarrow> error + pyval"
  env_loads :: "string \<Rightarrow> pyval option"
  env_b64decode :: "string \<Rightarrow> error + bytes"
  env_fmt :: "pyval \<Rightarrow> string"

text \<open>The configuration a \<open>BedrockService\<close> is constructed with.\<close>

record service =
  model_id :: string
  knowledge_base_id :: string
  max_knowledge_documents :: int
  max_image_size :: int
  max_images :: int
  config_table_name :: string

type_synonym 'a outcome = "call list \<times> (error + 'a)"

definition returnO :: "'a \<Rightarrow> 'a outcome" where
  "returnO x = ([], Inr x)"

definition raiseO :: "error \<Rightarrow> 'a outcome" where
  "raiseO e = ([], Inl e)"

definition liftO :: "error + 'a \<Rightarrow> 'a outcome" where
  "liftO r = ([], r)"

definition callO :: "call \<Rightarrow> error + 'a \<Rightarrow> 'a outcome" where
  "callO c r = ([c], r)"

definition bindO :: "'a outcome \<Rightarrow> ('a \<Rightarrow> 'b outcome) \<Rightarrow> 'b outcome" where
  "bindO m f =
     (case snd m of
        Inl e \<Rightarrow> (fst m, Inl e)
      | Inr x \<Rightarrow> (fst m @ fst (f x), snd (f x)))"

definition catchO :: "'a outcome \<Rightarrow> (error \<Rightarrow> 'a outcome) \<Rightarrow> 'a outcome" where
  "catchO m h =
     (case snd m of
        Inl e \<Rightarrow> (fst m @ fst (h e), snd (h e))
      | Inr x \<Rightarrow> m)"

section \<open>More Python operations\<close>

text \<open>
  \<open>k in x\<close> for a string \<open>k\<close>: a key of a dictionary, an element of a list, a substring
  of a string; anything else is not iterable. \<open>x[k]\<close> for a string \<open>k\<close> needs a dictionary.
  \<open>x >= n\<close> for an integer \<open>n\<close> needs a number.
\<close>

fun is_infix :: "string \<Rightarrow> string \<Rightarrow> bool" where
  "is_infix xs [] = (xs = [])"
| "is_infix xs (y # ys) = (take (length xs) (y # ys) = xs \<or> is_infix xs ys)"

definition py_in :: "string \<Rightarrow> pyval \<Rightarrow> error + bool" where
  "py_in k x =
     (case x of
        PyDict d \<Rightarrow> Inr (map_of d k \<noteq> None)
      | PyList xs \<Rightarrow> Inr (PyStr k \<in> set xs)
      | PyStr s \<Rightarrow> Inr (is_infix k s)
      | _ \<Rightarrow> Inl TypeError)"

definition py_subscript :: "pyval \<Rightarrow> string \<Rightarrow> error + pyval" where
  "py_subscript x k = (case x of PyDict d \<Rightarrow> subscript d k | _ \<Rightarrow> Inl TypeError)"

definition py_ge_int :: "pyval \<Rightarrow> int \<Rightarrow> error + bool" where
  "py_ge_int x n =
     (case x of
        PyInt i \<Rightarrow> Inr (i \<ge> n)
      | PyFloat r \<Rightarrow> Inr (r \<ge> real_of_int n)
      | PyBool b \<Rightarrow> Inr ((if b then 1 else 0) \<ge> n)
      | _ \<Rightarrow> Inl TypeError)"

text \<open>\<open>d.update(other)\<close> for two dictionaries.\<close>

definition dict_update :: "dict \<Rightarrow> dict \<Rightarrow> dict" where
  "dict_update d other = foldl (\<lambda>acc kv. AList.update (fst kv) (snd kv) acc) d other"

section \<open>Knowledge retrieval\<close>

text \<open>
  \<open>retrieve_knowledge_context\<close> (lines 178-209). The whole body stands in a \<open>try\<close> whose
  handler logs a warning and returns the empty list. \<open>filters\<close> is a dictionary or \<open>None\<close>;
  \<open>None\<close> and the empty dictionary are both false and are both \<open>[]\<close> here.
\<close>

definition retrieve_knowledge_context ::
  "environment \<Rightarrow> service \<Rightarrow> string \<Rightarrow> dict \<Rightarrow> BedrockKnowledgeDocument list outcome" where
  "retrieve_knowledge_context env svc query filters =
     catchO
       (let vector_search = [(''numberOfResults'', PyInt (max_knowledge_documents svc))];
            retrieval_config =
              PyDict [(''vectorSearchConfiguration'',
                PyDict (if filters \<noteq> [] then dict_update vector_search filters else vector_search))]
        in bindO (callO (RetrieveCall (knowledge_base_id svc) query retrieval_config)
                    (env_retrieve env (knowledge_base_id svc) query retrieval_config)) (\<lambda>response.
           bindO (liftO (py_get response ''retrievalResults'' (PyList []))) (\<lambda>results.
           bindO (liftO (py_len results)) (\<lambda>n.
             liftO (process_knowledge_results results)))))
       (\<lambda>e. returnO [])"

section \<open>Prompt overrides\<close>

text \<open>\<open>_get_custom_prompt\<close> (lines 1037-1069) and \<open>_resolve_prompt\<close> (lines 1010-1035).\<close>

definition get_custom_prompt :: "environment \<Rightarrow> service \<Rightarrow> dict \<Rightarrow> pyval outcome" where
  "get_custom_prompt env svc work_item =
     (if config_table_name svc = [] then returnO PyNone
      else
        (let ado_key =
               py_format (env_fmt env) (dict_get work_item ''workItemType'' (PyStr [])) @ ''#'' @
               py_format (env_fmt env) (dict_get work_item ''areaPath'' (PyStr [])) @ ''#'' @
               py_format (env_fmt env) (dict_get work_item ''businessUnit'' (PyStr [])) @ ''#'' @
               py_format (env_fmt env) (dict_get work_item ''system'' (PyStr []))
         in catchO
              (bindO (callO (GetItemCall (config_table_name svc) ado_key)
                        (env_get_item env (config_table_name svc) ado_key)) (\<lambda>response.
               bindO (liftO (py_in ''Item'' response)) (\<lambda>has_item.
                 if has_item then
                   bindO (liftO (py_subscript response ''Item'')) (\<lambda>config_item.
                   bindO (liftO (py_get config_item ''prompt'' (PyDict []))) (\<lambda>p.
                     liftO (py_get p ''S'' PyNone)))
                 else returnO PyNone)))
              (\<lambda>e. returnO PyNone)))"

definition resolve_prompt :: "environment \<Rightarrow> service \<Rightarrow> dict \<Rightarrow> string option \<Rightarrow> pyval outcome" where
  "resolve_prompt env svc work_item parameter_prompt =
     (if parameter_prompt \<noteq> None \<and> parameter_prompt \<noteq> Some [] then
        returnO (PyStr (the parameter_prompt))
      else
        bindO (get_custom_prompt env svc work_item) (\<lambda>database_prompt.
          if truthy database_prompt then returnO database_prompt else returnO PyNone))"

text \<open>\<open>_build_work_item_generation_system_prompt\<close> (lines 591-678).\<close>

definition build_work_item_generation_system_prompt ::
  "environment \<Rightarrow> service \<Rightarrow> dict \<Rightarrow> BedrockInferenceParams \<Rightarrow> pyval outcome" where
  "build_work_item_generation_system_prompt env svc work_item params =
     (let default_prompt = default_generation_prompt work_item
      in bindO (resolve_prompt env svc work_item (prompt params)) (\<lambda>resolved.
           (let base_prompt = (if truthy resolved then resolved else PyStr default_prompt)
            in returnO (with_output_rules (env_fmt env) work_item base_prompt))))"

section \<open>Multi-modal content\<close>

text \<open>
  \<open>_is_image_size_valid\<close> (lines 946-958): the size in megabytes of the decoded image,
  computed from the length of the base64 text, against the limit.
\<close>

definition is_image_size_valid :: "service \<Rightarrow> string \<Rightarrow> bool" where
  "is_image_size_valid svc base64_data =
     (let size_in_bytes = (real (length base64_data) * 3) / 4;
          size_in_mb = size_in_bytes / (1024 * 1024)
      in \<not> (size_in_mb > real_of_int (max_image_size svc)))"

text \<open>\<open>_detect_image_format\<close> (lines 960-990).\<close>

definition byte_at :: "bytes \<Rightarrow> nat \<Rightarrow> nat" where
  "byte_at buffer i = of_char (buffer ! i)"

definition detect_image_format :: "bytes \<Rightarrow> string" where
  "detect_image_format buffer =
     (if length buffer \<ge> 4 then
        (if byte_at buffer 0 = 0xFF \<and> byte_at buffer 1 = 0xD8 \<and> byte_at buffer 2 = 0xFF then ''jpeg''
         else if byte_at buffer 0 = 0x89 \<and> byte_at buffer 1 = 0x50 \<and> byte_at buffer 2 = 0x4E \<and>
                 byte_at buffer 3 = 0x47 then ''png''
         else if byte_at buffer 0 = 0x52 \<and> byte_at buffer 1 = 0x49 \<and> byte_at buffer 2 = 0x46 \<and>
                 byte_at buffer 3 = 0x46 \<and> length buffer \<ge> 12 \<and> byte_at buffer 8 = 0x57 \<and>
                 byte_at buffer 9 = 0x45 \<and> byte_at buffer 10 = 0x42 \<and> byte_at buffer 11 = 0x50
              then ''webp''
         else if byte_at buffer 0 = 0x47 \<and> byte_at buffer 1 = 0x49 \<and> byte_at buffer 2 = 0x46 \<and>
                 byte_at buffer 3 = 0x38 then ''gif''
         else ''jpeg'')
      else ''jpeg'')"

text \<open>
  One pass of the loop of \<open>_build_model_content\<close> (lines 910-936): the block to append,
  if any. The body stands in a \<open>try\<close>; its handler logs \<open>image.get("url")\<close>, which itself
  raises when the entry is no dictionary, and that exception leaves the loop.
\<close>

definition process_image :: "environment \<Rightarrow> service \<Rightarrow> pyval \<Rightarrow> content_block option outcome" where
  "process_image env svc entry =
     (case entry of
        PyDict img \<Rightarrow>
          catchO
            (bindO (callO (FetchImageCall (dict_get img ''url'' (PyStr [])))
                      (env_fetch_image env (dict_get img ''url'' (PyStr [])))) (\<lambda>image_data.
               (case image_data of
                  None \<Rightarrow> returnO None
                | Some d \<Rightarrow>
                    if d \<noteq> [] \<and> is_image_size_valid svc d then
                      bindO (liftO (env_b64decode env d)) (\<lambda>image_bytes.
                        returnO (Some (ImageBlock (detect_image_format image_bytes) image_bytes)))
                    else returnO None)))
            (\<lambda>e. returnO None)
      | _ \<Rightarrow> raiseO AttributeError)"

fun process_images ::
  "environment \<Rightarrow> service \<Rightarrow> content_block list \<Rightarrow> pyval list \<Rightarrow> content_block list outcome" where
  "process_images env svc blocks [] = returnO blocks"
| "process_images env svc blocks (entry # entries) =
     bindO (process_image env svc entry) (\<lambda>r.
       process_images env svc (case r of None \<Rightarrow> blocks | Some b \<Rightarrow> blocks @ [b]) entries)"

text \<open>\<open>images[:n]\<close> and the entries a loop over it visits.\<close>

definition sliced_entries :: "pyval \<Rightarrow> int \<Rightarrow> error + pyval list" where
  "sliced_entries images n =
     (case images of
        PyList xs \<Rightarrow> Inr (py_prefix xs n)
      | PyStr s \<Rightarrow> Inr (map (\<lambda>c. PyStr [c]) (py_prefix s n))
      | _ \<Rightarrow> Inl TypeError)"

text \<open>\<open>_build_model_content\<close> (lines 900-944).\<close>

definition build_model_content ::
  "environment \<Rightarrow> service \<Rightarrow> dict \<Rightarrow> string \<Rightarrow> content_block list outcome" where
  "build_model_content env svc work_item user_prompt =
     (let blocks = [TextBlock user_prompt];
          images = dict_get work_item ''images'' (PyList [])
      in if \<not> truthy images then returnO blocks
         else
           bindO (liftO (sliced_entries images (max_images svc))) (\<lambda>images_to_process.
             process_images env svc blocks images_to_process))"

section \<open>Response parsers\<close>

text \<open>\<open>response.get("output", {}).get("message", {}).get("content", [])\<close>.\<close>

definition message_content_of :: "pyval \<Rightarrow> error + pyval" where
  "message_content_of response =
     bindE (py_get response ''output'' (PyDict [])) (\<lambda>output.
     bindE (py_get output ''message'' (PyDict [])) (\<lambda>message.
       py_get message ''content'' (PyList [])))"

text \<open>
  \<open>_parse_work_item_evaluation\<close> (lines 432-460). The message content passes the first
  test only when it is a non-empty list.
\<close>

definition parse_work_item_evaluation ::
  "(string \<Rightarrow> pyval option) \<Rightarrow> pyval \<Rightarrow> BedrockKnowledgeDocument list \<Rightarrow>
   error + BedrockWorkItemEvaluationResponse" where
  "parse_work_item_evaluation loads response knowledge_context =
     bindE (message_content_of response) (\<lambda>message_content.
       (case message_content of
          PyList (first # rest) \<Rightarrow>
            bindE (py_get first ''text'' (PyStr [])) (\<lambda>text.
              if \<not> truthy text then Inl NoTextContent
              else
                (case text of
                   PyStr s \<Rightarrow>
                     (case safe_json_parse loads s of
                        None \<Rightarrow> Inl InvalidJsonResponse
                      | Some parsed_response \<Rightarrow>
                          if \<not> truthy parsed_response then Inl InvalidJsonResponse
                          else
                            bindE (py_get parsed_response ''pass'' (PyBool False)) (\<lambda>p.
                            bindE (py_get parsed_response ''comment'' PyNone) (\<lambda>c.
                              Inr \<lparr>passed = p, comment = c,
                                   sources = map source knowledge_context\<rparr>)))
                 | _ \<Rightarrow> Inl AttributeError))
        | _ \<Rightarrow> Inl InvalidMessageContent))"

text \<open>
  The arguments of the first debug log of \<open>_parse_work_items\<close> (lines 844-850), which are
  evaluated before anything is checked and raise on a response of the wrong shape.
\<close>

definition parse_debug_extra :: "pyval \<Rightarrow> error + unit" where
  "parse_debug_extra response =
     bindE (py_in ''output'' response) (\<lambda>has_output.
     bindE (py_get response ''output'' (PyDict [])) (\<lambda>output.
     bindE (py_in ''message'' output) (\<lambda>has_message.
     bindE (py_get output ''message'' (PyDict [])) (\<lambda>message.
     bindE (py_in ''content'' message) (\<lambda>has_content.
     bindE (py_get message ''content'' (PyList [])) (\<lambda>c.
     bindE (py_len c) (\<lambda>content_length.
     bindE (py_in ''usage'' response) (\<lambda>has_usage. Inr ()))))))))"

text \<open>\<open>response.get("usage", {}).get("outputTokens", 0)\<close>.\<close>

definition output_tokens_of :: "pyval \<Rightarrow> error + pyval" where
  "output_tokens_of response =
     bindE (py_get response ''usage'' (PyDict [])) (\<lambda>usage.
       py_get usage ''outputTokens'' (PyInt 0))"

text \<open>
  \<open>_parse_work_items\<close> (lines 841-896). After the two structure checks the reported output
  tokens are compared with the module constant \<open>MAX_OUTPUT_TOKENS\<close>; then the text is
  parsed, and the value under \<open>workItems\<close> is returned after a log that takes its length.
\<close>

definition parse_work_items :: "(string \<Rightarrow> pyval option) \<Rightarrow> pyval \<Rightarrow> error + pyval" where
  "parse_work_items loads response =
     bindE (parse_debug_extra response) (\<lambda>u.
     bindE (message_content_of response) (\<lambda>message_content.
       (case message_content of
          PyList (first # rest) \<Rightarrow>
            bindE (py_get first ''text'' (PyStr [])) (\<lambda>text.
            bindE (output_tokens_of response) (\<lambda>output_tokens.
              if \<not> truthy text then Inl NoTextContent
              else
                bindE (if truthy output_tokens then py_ge_int output_tokens MAX_OUTPUT_TOKENS
                       else Inr False) (\<lambda>over_limit.
                  if over_limit then Inl TokenLimitExceeded
                  else
                    (case text of
                       PyStr s \<Rightarrow>
                         (case safe_json_parse loads s of
                            None \<Rightarrow> Inl InvalidJsonResponse
                          | Some parsed_response \<Rightarrow>
                              if \<not> truthy parsed_response then Inl InvalidJsonResponse
                              else
                                bindE (py_in ''workItems'' parsed_response) (\<lambda>has_items.
                                  if \<not> has_items then Inl InvalidJsonResponse
                                  else
                                    bindE (py_subscript parsed_response ''workItems'') (\<lambda>items.
                                    bindE (py_len items) (\<lambda>n. Inr items))))
                     | _ \<Rightarrow> Inl AttributeError))))
        | _ \<Rightarrow> Inl InvalidMessageContent)))"

section \<open>Model invocation\<close>

text \<open>
  The arguments of the log written after \<open>converse\<close> returns (lines 297-303 and 572-577).
\<close>

definition response_log_extra :: "pyval \<Rightarrow> error + unit" where
  "response_log_extra response =
     bindE (py_get response ''ResponseMetadata'' (PyDict [])) (\<lambda>metadata.
     bindE (py_get metadata ''HTTPStatusCode'' PyNone) (\<lambda>status.
     bindE (py_get response ''output'' (PyDict [])) (\<lambda>output.
     bindE (py_get output ''content'' (PyStr [])) (\<lambda>c.
     bindE (py_len c) (\<lambda>content_length.
     bindE (py_get response ''usage'' (PyDict [])) (\<lambda>usage.
     bindE (py_get usage ''inputTokens'' PyNone) (\<lambda>input_tokens.
     bindE (py_get usage ''outputTokens'' PyNone) (\<lambda>output_tokens. Inr ()))))))))"

text \<open>
  \<open>_invoke_model_for_work_item_evaluation\<close> (lines 266-311). The prompts and the content
  are built outside the \<open>try\<close>; the call, the log and the parser stand inside it, and its
  handler raises \<open>Exception(f"Bedrock model invocation failed: {e}")\<close>.
\<close>

definition invoke_model_for_work_item_evaluation ::
  "environment \<Rightarrow> service \<Rightarrow> dict \<Rightarrow> BedrockKnowledgeDocument list \<Rightarrow>
   BedrockWorkItemEvaluationResponse outcome" where
  "invoke_model_for_work_item_evaluation env svc work_item knowledge_context =
     (let system_prompt = build_work_item_evaluation_system_prompt (env_fmt env) work_item
      in bindO (liftO (build_work_item_evaluation_user_prompt (env_fmt env) work_item
                         knowledge_context)) (\<lambda>user_prompt.
         bindO (build_model_content env svc work_item user_prompt) (\<lambda>blocks.
         bindO (liftO (subscript work_item ''workItemType'')) (\<lambda>logged_type.
           catchO
             (let inference_config = [(''maxTokens'', PyInt 2048), (''temperature'', PyFloat 0.5)]
              in bindO (callO (ConverseCall (model_id svc) blocks inference_config
                                 (PyStr system_prompt))
                          (env_converse env (model_id svc) blocks inference_config
                             (PyStr system_prompt))) (\<lambda>response.
                 bindO (liftO (response_log_extra response)) (\<lambda>u.
                   liftO (parse_work_item_evaluation (env_loads env) response
                            knowledge_context))))
             (\<lambda>e. raiseO (InvocationFailed e))))))"

text \<open>
  \<open>_invoke_model_for_work_item_generation\<close> (lines 503-589). Refinement is chosen when both
  the instructions and the drafts are truthy. The handler of the \<open>try\<close> builds the
  arguments of its log before it raises, and among them is
  \<open>len([{"role": "user", "content": content}], {})\<close>: \<open>len\<close> takes one argument, so the
  handler itself raises \<open>TypeError\<close> and that is the exception the caller sees.
\<close>

definition is_refinement :: "BedrockInferenceParams \<Rightarrow> bool" where
  "is_refinement params =
     (refinement_instructions params \<noteq> None \<and> refinement_instructions params \<noteq> Some [] \<and>
      generated_work_items params \<noteq> None \<and> generated_work_items params \<noteq> Some [])"

definition invoke_model_for_work_item_generation ::
  "environment \<Rightarrow> service \<Rightarrow> dict \<Rightarrow> pyval list \<Rightarrow> BedrockInferenceParams \<Rightarrow>
   BedrockKnowledgeDocument list \<Rightarrow> pyval outcome" where
  "invoke_model_for_work_item_generation env svc work_item existing_child_work_items params
       knowledge_context =
     bindO (build_work_item_generation_system_prompt env svc work_item params) (\<lambda>system_prompt.
     bindO (liftO
             (if is_refinement params then
                build_work_item_refinement_user_prompt (env_fmt env) work_item
                  (the (generated_work_items params)) (the (refinement_instructions params))
                  existing_child_work_items knowledge_context
              else
                build_work_item_generation_user_prompt (env_fmt env) work_item
                  existing_child_work_items knowledge_context)) (\<lambda>user_prompt.
     bindO (build_model_content env svc work_item user_prompt) (\<lambda>blocks.
       (let inference_config = generation_inference_config params
        in catchO
             (bindO (callO (ConverseCall (model_id svc) blocks inference_config system_prompt)
                       (env_converse env (model_id svc) blocks inference_config system_prompt))
                (\<lambda>response.
                bindO (liftO (response_log_extra response)) (\<lambda>u.
                  liftO (parse_work_items (env_loads env) response))))
             (\<lambda>e. raiseO TypeError)))))"

section \<open>The two operations of the service\<close>

text \<open>
  \<open>evaluate_work_item\<close> (lines 239-264) and \<open>generate_work_items\<close> (lines 464-501). The
  first log of each reads \<open>work_item['workItemType']\<close> and \<open>work_item['workItemId']\<close>. The
  outer handler logs and raises the same exception again, so it changes nothing here.
\<close>

definition evaluate_work_item ::
  "environment \<Rightarrow> service \<Rightarrow> dict \<Rightarrow> BedrockWorkItemEvaluationResponse outcome" where
  "evaluate_work_item env svc work_item =
     bindO (liftO (subscript work_item ''workItemType'')) (\<lambda>work_item_type.
     bindO (liftO (subscript work_item ''workItemId'')) (\<lambda>work_item_id.
     bindO (liftO (build_work_item_evaluation_knowledge_query (env_fmt env) work_item)) (\<lambda>query.
       (let filters = build_work_item_evaluation_filters work_item_type
        in bindO (retrieve_knowledge_context env svc query filters) (\<lambda>knowledge_context.
             invoke_model_for_work_item_evaluation env svc work_item knowledge_context)))))"

definition generate_work_items ::
  "environment \<Rightarrow> service \<Rightarrow> dict \<Rightarrow> pyval list \<Rightarrow> BedrockInferenceParams option \<Rightarrow>
   BedrockWorkItemGenerationResponse outcome" where
  "generate_work_items env svc work_item existing_child_work_items params_opt =
     (let params = (case params_opt of None \<Rightarrow> default_params | Some p \<Rightarrow> p)
      in bindO (liftO (subscript work_item ''workItemType'')) (\<lambda>work_item_type.
         bindO (liftO (subscript work_item ''workItemId'')) (\<lambda>work_item_id.
         bindO (liftO (build_work_item_breakdown_knowledge_query (env_fmt env) work_item)) (\<lambda>query.
           (let filters = build_work_item_breakdown_filters work_item
            in bindO (retrieve_knowledge_context env svc query filters) (\<lambda>knowledge_context.
               bindO (invoke_model_for_work_item_generation env svc work_item
                        existing_child_work_items params knowledge_context) (\<lambda>items.
                 returnO \<lparr>work_items = items, documents = knowledge_context\<rparr>)))))))"

section \<open>The evaluation tool\<close>

text \<open>
  \<open>evaluate_work_item\<close> of \<open>tools/bedrock_tools.py\<close> (lines 20-42). The tool returns a
  string in every case: the notice, the JSON text of the result, or the error message; the
  three are the constructors of \<open>tool_output\<close>. The whole body stands in a \<open>try\<close>.
\<close>

datatype tool_output =
    AlreadyEvaluated string
  | EvaluationJson pyval pyval "pyval list"
  | ErrorMessage error

definition already_evaluated_notice :: "string \<Rightarrow> string" where
  "already_evaluated_notice t =
     ''The '' @ t @ '' has already been previously evaluated by Task Genie. Please remove the '' @
     [CHR 0x60] @ ''Task Genie'' @ [CHR 0x60] @ '' tag to re-evaluate this '' @ t @ ''.''"

definition evaluate_work_item_tool ::
  "environment \<Rightarrow> service \<Rightarrow> dict \<Rightarrow> call list \<times> tool_output" where
  "evaluate_work_item_tool env svc work_item =
     (let tags = dict_get work_item ''tags'' (PyList [])
      in case py_in ''Task Genie'' tags of
           Inl e \<Rightarrow> ([], ErrorMessage e)
         | Inr True \<Rightarrow>
             (case subscript work_item ''workItemType'' of
                Inl e \<Rightarrow> ([], ErrorMessage e)
              | Inr t \<Rightarrow> ([], AlreadyEvaluated (already_evaluated_notice (py_format (env_fmt env) t))))
         | Inr False \<Rightarrow>
             (case evaluate_work_item env svc work_item of
                (calls, Inl e) \<Rightarrow> (calls, ErrorMessage e)
              | (calls, Inr result) \<Rightarrow>
                  (calls, EvaluationJson (passed result) (comment result) (sources result))))"

section \<open>Sample collaborators\<close>

text \<open>
  Concrete values on which the functions are run: a response of the inference client that
  carries one text block and reports its token usage; an environment whose knowledge base
  is unavailable, whose configuration table is empty, whose image fetch finds nothing and
  whose inference client answers with a given response; and the service as
  \<open>tools/bedrock_tools.py\<close> constructs it (three documents, 5 MB, three images), with no
  configuration table.
\<close>

definition text_response :: "string \<Rightarrow> int \<Rightarrow> pyval" where
  "text_response s n =
     PyDict [(''output'', PyDict [(''message'', PyDict [(''role'', PyStr ''assistant''),
               (''content'', PyList [PyDict [(''text'', PyStr s)]])])]),
             (''usage'', PyDict [(''inputTokens'', PyInt 900), (''outputTokens'', PyInt n)])]"

definition answering_environment :: "pyval \<Rightarrow> environment" where
  "answering_environment response =
     \<lparr>env_retrieve = (\<lambda>kb query config. Inl (ClientError ''ServiceUnavailable'')),
      env_get_item = (\<lambda>table key. Inr (PyDict [])),
      env_fetch_image = (\<lambda>url. Inr None),
      env_converse = (\<lambda>model blocks config system. Inr response),
      env_loads = json_loads,
      env_b64decode = (\<lambda>d. Inl (ClientError ''binascii.Error'')),
      env_fmt = (\<lambda>v. ''?'')\<rparr>"

definition tool_service :: service where
  "tool_service =
     \<lparr>model_id = ''model'', knowledge_base_id = ''kb'', max_knowledge_documents = 3,
      max_image_size = 5, max_images = 3, config_table_name = []\<rparr>"

definition sample_epic :: dict where
  "sample_epic =
     [(''workItemId'', PyInt 7), (''workItemType'', PyStr ''Epic''),
      (''title'', PyStr ''Checkout''), (''description'', PyStr ''Pay online'')]"

section \<open>Accepted images\<close>

text \<open>
  The block of an image reference as the specification words it: the image is accepted when
  the fetch returns a non-empty base64 text that passes the size check and decodes, and its
  block carries the decoded bytes and their detected format. Any failure of the fetch or of
  the decoding leaves the image out.
\<close>

definition image_url :: "dict \<Rightarrow> pyval" where
  "image_url img = dict_get img ''url'' (PyStr [])"

definition accepted_block :: "environment \<Rightarrow> service \<Rightarrow> dict \<Rightarrow> content_block option" where
  "accepted_block env svc img =
     (case env_fetch_image env (image_url img) of
        Inr (Some d) \<Rightarrow>
          if d \<noteq> [] \<and> is_image_size_valid svc d then
            (case env_b64decode env d of
               Inr image_bytes \<Rightarrow> Some (ImageBlock (detect_image_format image_bytes) image_bytes)
             | Inl e \<Rightarrow> None)
          else None
      | _ \<Rightarrow> None)"

text \<open>
  An environment whose image fetch answers every URL but one with the base64 text of the
  four bytes of the PNG signature, and a work item with five image references.
\<close>

definition picture_environment :: environment where
  "picture_environment =
     \<lparr>env_retrieve = (\<lambda>kb query config. Inr (PyDict [(''retrievalResults'', PyList [])])),
      env_get_item = (\<lambda>table key. Inr (PyDict [])),
      env_fetch_image =
        (\<lambda>url. if url = PyStr ''https://example.org/missing.png'' then Inr None
              else Inr (Some ''iVBORw=='')),
      env_converse = (\<lambda>model blocks config system. Inl (ClientError ''Throttled'')),
      env_loads = json_loads,
      env_b64decode =
        (\<lambda>d. if d = ''iVBORw=='' then Inr [CHR 0x89, CHR 0x50, CHR 0x4E, CHR 0x47]
            else Inl (ClientError ''binascii.Error'')),
      env_fmt = (\<lambda>v. ''?'')\<rparr>"

definition five_images :: "dict list" where
  "five_images =
     [[(''url'', PyStr ''https://example.org/1.png''), (''alt'', PyStr ''one'')],
      [(''url'', PyStr ''https://example.org/2.png'')],
      [(''url'', PyStr ''https://example.org/3.png'')],
      [(''url'', PyStr ''https://example.org/4.png'')],
      [(''url'', PyStr ''https://example.org/5.png'')]]"

section \<open>Properties of the type-hierarchy resolver\<close>

text \<open>
  C1. The expected child type follows the table: Epic gives Feature(s); Feature gives
  Product Backlog Item(s) when the process template equals Scrum and User Story/Stories for
  any other template (also a missing one); User Story and Product Backlog Item give Task(s);
  every other type, a missing type and a type that is no string give \<open>None\<close>, whatever the
  plural flag.
\<close>

theorem expected_child_type_table:
  "(map_of wi ''workItemType'' = Some (PyStr ''Epic'') \<longrightarrow>
      get_expected_child_work_item_type wi False = Some ''Feature'' \<and>
      get_expected_child_work_item_type wi True = Some ''Features'') \<and>
   (map_of wi ''workItemType'' = Some (PyStr ''Feature'') \<and>
    map_of wi ''processTemplate'' = Some (PyStr ''Scrum'') \<longrightarrow>
      get_expected_child_work_item_type wi False = Some ''Product Backlog Item'' \<and>
      get_expected_child_work_item_type wi True = Some ''Product Backlog Items'') \<and>
   (map_of wi ''workItemType'' = Some (PyStr ''Feature'') \<and>
    map_of wi ''processTemplate'' \<noteq> Some (PyStr ''Scrum'') \<longrightarrow>
      get_expected_child_work_item_type wi False = Some ''User Story'' \<and>
      get_expected_child_work_item_type wi True = Some ''User Stories'') \<and>
   (map_of wi ''workItemType'' = Some (PyStr ''User Story'') \<or>
    map_of wi ''workItemType'' = Some (PyStr ''Product Backlog Item'') \<longrightarrow>
      get_expected_child_work_item_type wi False = Some ''Task'' \<and>
      get_expected_child_work_item_type wi True = Some ''Tasks'') \<and>
   (map_of wi ''workItemType'' \<notin>
      {Some (PyStr ''Epic''), Some (PyStr ''Feature''), Some (PyStr ''User Story''),
       Some (PyStr ''Product Backlog Item'')} \<longrightarrow>
      get_expected_child_work_item_type wi plural = None)"
proof -
  have epic: "map_of wi ''workItemType'' = Some (PyStr ''Epic'') \<Longrightarrow>
      get_expected_child_work_item_type wi b = Some (if b then ''Features'' else ''Feature'')" for b
    by (simp add: get_expected_child_work_item_type_def dict_get_def)
  have scrum: "map_of wi ''workItemType'' = Some (PyStr ''Feature'') \<Longrightarrow>
      map_of wi ''processTemplate'' = Some (PyStr ''Scrum'') \<Longrightarrow>
      get_expected_child_work_item_type wi b =
        Some (if b then ''Product Backlog Items'' else ''Product Backlog Item'')" for b
    by (simp add: get_expected_child_work_item_type_def dict_get_def)
  have other: "map_of wi ''workItemType'' = Some (PyStr ''Feature'') \<Longrightarrow>
      map_of wi ''processTemplate'' \<noteq> Some (PyStr ''Scrum'') \<Longrightarrow>
      get_expected_child_work_item_type wi b =
        Some (if b then ''User Stories'' else ''User Story'')" for b
    by (cases "map_of wi ''processTemplate''")
       (simp_all add: get_expected_child_work_item_type_def dict_get_def)
  have task: "map_of wi ''workItemType'' = Some (PyStr ''User Story'') \<or>
      map_of wi ''workItemType'' = Some (PyStr ''Product Backlog Item'') \<Longrightarrow>
      get_expected_child_work_item_type wi b = Some (if b then ''Tasks'' else ''Task'')" for b
    by (auto simp add: get_expected_child_work_item_type_def dict_get_def)
  have none: "map_of wi ''workItemType'' \<notin>
      {Some (PyStr ''Epic''), Some (PyStr ''Feature''), Some (PyStr ''User Story''),
       Some (PyStr ''Product Backlog Item'')} \<Longrightarrow>
      get_expected_child_work_item_type wi plural = None"
    by (cases "map_of wi ''workItemType''")
       (simp_all add: get_expected_child_work_item_type_def dict_get_def)
  show ?thesis
    using epic [of True] epic [of False] scrum [of True] scrum [of False]
      other [of True] other [of False] task [of True] task [of False] none
    by simp
qed

theorem expected_child_type_table_witness:
  "get_expected_child_work_item_type [(''workItemType'', PyStr ''Epic'')] True = Some ''Features'' \<and>
   get_expected_child_work_item_type
     [(''workItemType'', PyStr ''Feature''), (''processTemplate'', PyStr ''Scrum'')] False =
     Some ''Product Backlog Item'' \<and>
   get_expected_child_work_item_type
     [(''workItemType'', PyStr ''Feature''), (''processTemplate'', PyStr ''Agile'')] True =
     Some ''User Stories'' \<and>
   get_expected_child_work_item_type [(''workItemType'', PyStr ''Feature'')] False =
     Some ''User Story'' \<and>
   get_expected_child_work_item_type [(''workItemType'', PyStr ''Product Backlog Item'')] True =
     Some ''Tasks'' \<and>
   get_expected_child_work_item_type [(''workItemType'', PyStr ''Task'')] True = None \<and>
   get_expected_child_work_item_type [(''workItemType'', PyStr ''Bug'')] False = None \<and>
   get_expected_child_work_item_type [] False = None"
  using expected_child_type_table [of "[(''workItemType'', PyStr ''Epic'')]"]
    expected_child_type_table
      [of "[(''workItemType'', PyStr ''Feature''), (''processTemplate'', PyStr ''Scrum'')]"]
    expected_child_type_table
      [of "[(''workItemType'', PyStr ''Feature''), (''processTemplate'', PyStr ''Agile'')]"]
    expected_child_type_table [of "[(''workItemType'', PyStr ''Feature'')]"]
    expected_child_type_table [of "[(''workItemType'', PyStr ''Product Backlog Item'')]"]
    expected_child_type_table [of "[(''workItemType'', PyStr ''Task'')]" True]
    expected_child_type_table [of "[(''workItemType'', PyStr ''Bug'')]" False]
    expected_child_type_table [of "[]" False]
  by simp

section \<open>Properties of the breakdown filter\<close>

lemma truthy_str: "truthy (PyStr s) \<longleftrightarrow> s \<noteq> []"
  by simp

lemma truthy_get_none: "truthy (dict_get_none wi k) = field_present wi k"
  by (simp add: dict_get_none_def dict_get_def field_present_def split: option.splits)

lemma append_condition_eq:
  "append_condition wi k fc =
     fc @ (if field_present wi k then [equals_condition k (the (map_of wi k))] else [])"
  by (auto simp add: append_condition_def truthy_get_none dict_get_none_def dict_get_def
        field_present_def split: option.splits)

text \<open>The four appends of the source build the list of the conditions that are present.\<close>

lemma filter_conditions_eq:
  "append_condition wi ''system''
     (append_condition wi ''businessUnit''
       (append_condition wi ''areaPath''
         (append_condition wi ''workItemType'' []))) = present_conditions wi"
  by (simp add: append_condition_eq present_conditions_def filter_fields_def)

lemma present_conditions_length: "length (present_conditions wi) \<le> 4"
proof -
  have "length (present_conditions wi) \<le> length filter_fields"
    unfolding present_conditions_def by simp
  then show ?thesis by (simp add: filter_fields_def)
qed

lemma present_conditions_mem:
  "equals_condition k v \<in> set (present_conditions wi) \<longleftrightarrow>
     k \<in> set filter_fields \<and> map_of wi k = Some v \<and> truthy v"
  by (auto simp add: present_conditions_def field_present_def equals_condition_def
        split: option.splits)

text \<open>
  C8. The breakdown filter holds at most four equality conditions; the condition of a
  field (work-item type, area path, business unit, system) is among them exactly when the
  field is present with a truthy value, which for a string means non-empty
  (\<open>truthy_str\<close>). Two or more conditions are combined under \<open>andAll\<close>, a single
  condition is the filter itself, and with no condition the result is the empty dictionary.
\<close>

theorem breakdown_filters_spec:
  "length (present_conditions wi) \<le> 4 \<and>
   (\<forall>k v. equals_condition k v \<in> set (present_conditions wi) \<longleftrightarrow>
      k \<in> set filter_fields \<and> map_of wi k = Some v \<and> truthy v) \<and>
   (2 \<le> length (present_conditions wi) \<longrightarrow>
      build_work_item_breakdown_filters wi =
        [(''filter'', PyDict [(''andAll'', PyList (present_conditions wi))])]) \<and>
   (\<forall>c. present_conditions wi = [c] \<longrightarrow>
      build_work_item_breakdown_filters wi = [(''filter'', c)]) \<and>
   (present_conditions wi = [] \<longrightarrow> build_work_item_breakdown_filters wi = [])"
proof -
  have code: "build_work_item_breakdown_filters wi =
      (if 2 \<le> length (present_conditions wi) then
         [(''filter'', PyDict [(''andAll'', PyList (present_conditions wi))])]
       else if length (present_conditions wi) = 1 then
         [(''filter'', present_conditions wi ! 0)]
       else [])"
    unfolding build_work_item_breakdown_filters_def filter_conditions_eq by (simp add: Let_def)
  show ?thesis
    using present_conditions_length [of wi] present_conditions_mem [of _ _ wi]
    by (auto simp add: code)
qed

theorem breakdown_filters_spec_witness:
  "build_work_item_breakdown_filters
     [(''workItemType'', PyStr ''Epic''), (''areaPath'', PyStr []), (''system'', PyStr ''CRM'')] =
     [(''filter'', PyDict [(''andAll'', PyList
       [equals_condition ''workItemType'' (PyStr ''Epic''),
        equals_condition ''system'' (PyStr ''CRM'')])])] \<and>
   build_work_item_breakdown_filters [(''areaPath'', PyStr ''Web'')] =
     [(''filter'', equals_condition ''areaPath'' (PyStr ''Web''))] \<and>
   build_work_item_breakdown_filters [(''title'', PyStr ''t''), (''system'', PyStr [])] = []"
  using breakdown_filters_spec
      [of "[(''workItemType'', PyStr ''Epic''), (''areaPath'', PyStr []), (''system'', PyStr ''CRM'')]"]
    breakdown_filters_spec [of "[(''areaPath'', PyStr ''Web'')]"]
    breakdown_filters_spec [of "[(''title'', PyStr ''t''), (''system'', PyStr [])]"]
  by (simp add: present_conditions_def filter_fields_def field_present_def)

section \<open>Properties of the lenient JSON extraction\<close>

lemma find_from_notin: "c \<notin> set s \<Longrightarrow> find_from c s i = -1"
  by (induction s arbitrary: i) auto

lemma find_from_first:
  "c \<notin> set pre \<Longrightarrow> find_from c (pre @ c # rest) i = i + int (length pre)"
  by (induction pre arbitrary: i) auto

lemma rfind_from_notin: "c \<notin> set s \<Longrightarrow> rfind_from c s i best = best"
  by (induction s arbitrary: i best) auto

lemma rfind_from_last:
  "c \<notin> set post \<Longrightarrow> rfind_from c (pre @ c # post) i best = i + int (length pre)"
  by (induction pre arbitrary: i best) (auto simp add: rfind_from_notin)

lemma safe_json_parse_found:
  assumes s: "s = pre @ CHR ''{'' # mid @ CHR ''}'' # post"
    and pre: "CHR ''{'' \<notin> set pre" and post: "CHR ''}'' \<notin> set post"
  shows "safe_json_parse loads s = loads (CHR ''{'' # mid @ [CHR ''}''])"
proof -
  have st: "str_find s CHR ''{'' = int (length pre)"
    unfolding str_find_def s using find_from_first [OF pre] by simp
  have "s = (pre @ CHR ''{'' # mid) @ CHR ''}'' # post"
    by (simp add: s)
  then have en: "str_rfind s CHR ''}'' = int (length pre) + 1 + int (length mid)"
    unfolding str_rfind_def using rfind_from_last [OF post, of "pre @ CHR ''{'' # mid" 0 "-1"]
    by simp
  have sl: "py_slice s (int (length pre)) (int (length pre) + 1 + int (length mid) + 1) =
      CHR ''{'' # mid @ [CHR ''}'']"
    by (simp add: py_slice_def s Let_def min_def nat_add_distrib)
  have "safe_json_parse loads s =
      loads (py_slice s (int (length pre)) (int (length pre) + 1 + int (length mid) + 1))"
    by (simp add: safe_json_parse_def st en Let_def)
  then show ?thesis
    by (simp only: sl)
qed

lemma safe_json_parse_none:
  assumes no: "\<not> (\<exists>pre mid post. s = pre @ CHR ''{'' # mid @ CHR ''}'' # post)"
  shows "safe_json_parse loads s = None"
proof (cases "CHR ''{'' \<in> set s \<and> CHR ''}'' \<in> set s")
  case False
  then have "str_find s CHR ''{'' = -1 \<or> str_rfind s CHR ''}'' = -1"
    by (auto simp add: str_find_def str_rfind_def find_from_notin rfind_from_notin)
  then show ?thesis by (auto simp add: safe_json_parse_def Let_def)
next
  case True
  then obtain pre rest where s1: "s = pre @ CHR ''{'' # rest" and pre: "CHR ''{'' \<notin> set pre"
    by (meson split_list_first)
  from True obtain a post where s2: "s = a @ CHR ''}'' # post" and post: "CHR ''}'' \<notin> set post"
    by (meson split_list_last)
  have st: "str_find s CHR ''{'' = int (length pre)"
    unfolding str_find_def s1 using find_from_first [OF pre] by simp
  have en: "str_rfind s CHR ''}'' = int (length a)"
    unfolding str_rfind_def s2 using rfind_from_last [OF post, of a 0 "-1"] by simp
  have "length a \<le> length pre"
  proof (rule ccontr)
    assume "\<not> length a \<le> length pre"
    then have lt: "length pre < length a" by simp
    from s1 s2 have eq: "pre @ CHR ''{'' # rest = a @ CHR ''}'' # post" by simp
    then obtain us where "a = pre @ us" "us \<noteq> []"
      using lt by (auto simp add: append_eq_append_conv2)
    with eq obtain mid where "a = pre @ CHR ''{'' # mid"
      by (cases us) auto
    with s2 have "s = pre @ CHR ''{'' # mid @ CHR ''}'' # post" by simp
    with no show False by blast
  qed
  then show ?thesis by (simp add: safe_json_parse_def st en Let_def)
qed

text \<open>
  C4. The lenient parser hands to \<open>loads\<close> exactly the text from the first opening brace to
  the last closing brace, both included, whatever prose stands before and after, and returns
  what \<open>loads\<close> returns for it: the parsed object when that text is well-formed, \<open>None\<close> when
  it is not (an unbalanced object, for instance). It returns \<open>None\<close> without parsing when an
  opening or a closing brace is missing, and more generally when no closing brace stands
  after an opening one.
\<close>

theorem safe_json_parse_spec:
  "(CHR ''{'' \<notin> set s \<or> CHR ''}'' \<notin> set s \<longrightarrow> safe_json_parse loads s = None) \<and>
   ((\<nexists>pre mid post. s = pre @ CHR ''{'' # mid @ CHR ''}'' # post) \<longrightarrow>
      safe_json_parse loads s = None) \<and>
   (\<forall>pre mid post.
      s = pre @ CHR ''{'' # mid @ CHR ''}'' # post \<and>
      CHR ''{'' \<notin> set pre \<and> CHR ''}'' \<notin> set post \<longrightarrow>
      safe_json_parse loads s = loads (CHR ''{'' # mid @ [CHR ''}'']))"
proof (intro conjI impI allI)
  assume "CHR ''{'' \<notin> set s \<or> CHR ''}'' \<notin> set s"
  then have "\<not> (\<exists>pre mid post. s = pre @ CHR ''{'' # mid @ CHR ''}'' # post)"
    by auto
  then show "safe_json_parse loads s = None"
    by (rule safe_json_parse_none)
next
  assume "\<nexists>pre mid post. s = pre @ CHR ''{'' # mid @ CHR ''}'' # post"
  then show "safe_json_parse loads s = None"
    by (rule safe_json_parse_none)
next
  fix pre mid post
  assume "s = pre @ CHR ''{'' # mid @ CHR ''}'' # post \<and>
      CHR ''{'' \<notin> set pre \<and> CHR ''}'' \<notin> set post"
  then show "safe_json_parse loads s = loads (CHR ''{'' # mid @ [CHR ''}''])"
    using safe_json_parse_found by blast
qed

theorem safe_json_parse_spec_witness:
  "safe_json_parse json_loads ''no json here'' = None \<and>
   safe_json_parse json_loads ''} then {'' = None \<and>
   safe_json_parse json_loads ''Sure! {\"workItems\": [{\"title\": \"1. A\"}]} Done.'' =
     Some (PyDict [(''workItems'', PyList [PyDict [(''title'', PyStr ''1. A'')]])]) \<and>
   safe_json_parse json_loads ''{\"a\": {\"b\": 1}'' = None"
proof -
  have a: "safe_json_parse json_loads ''no json here'' = None"
    using safe_json_parse_spec [of "''no json here''" json_loads] by simp
  have "\<nexists>pre mid post. ''} then {'' = pre @ CHR ''{'' # mid @ CHR ''}'' # post"
    by (auto simp add: Cons_eq_append_conv)
  then have b: "safe_json_parse json_loads ''} then {'' = None"
    using safe_json_parse_spec [of "''} then {''" json_loads] by blast
  have "''Sure! {\"workItems\": [{\"title\": \"1. A\"}]} Done.'' =
      ''Sure! '' @ CHR ''{'' # ''\"workItems\": [{\"title\": \"1. A\"}]'' @ CHR ''}'' # '' Done.'' \<and>
      CHR ''{'' \<notin> set ''Sure! '' \<and> CHR ''}'' \<notin> set '' Done.''"
    by simp
  then have "safe_json_parse json_loads ''Sure! {\"workItems\": [{\"title\": \"1. A\"}]} Done.'' =
      json_loads (CHR ''{'' # ''\"workItems\": [{\"title\": \"1. A\"}]'' @ [CHR ''}''])"
    using safe_json_parse_spec
      [of "''Sure! {\"workItems\": [{\"title\": \"1. A\"}]} Done.''" json_loads]
    by blast
  also have "\<dots> = Some (PyDict [(''workItems'', PyList [PyDict [(''title'', PyStr ''1. A'')]])])"
    by code_simp
  finally have c: "safe_json_parse json_loads ''Sure! {\"workItems\": [{\"title\": \"1. A\"}]} Done.'' =
      Some (PyDict [(''workItems'', PyList [PyDict [(''title'', PyStr ''1. A'')]])])" .
  have "''{\"a\": {\"b\": 1}'' = [] @ CHR ''{'' # ''\"a\": {\"b\": 1'' @ CHR ''}'' # [] \<and>
      CHR ''{'' \<notin> set [] \<and> CHR ''}'' \<notin> set []"
    by simp
  then have "safe_json_parse json_loads ''{\"a\": {\"b\": 1}'' =
      json_loads (CHR ''{'' # ''\"a\": {\"b\": 1'' @ [CHR ''}''])"
    using safe_json_parse_spec [of "''{\"a\": {\"b\": 1}''" json_loads]
    by blast
  also have "\<dots> = None"
    by code_simp
  finally have d: "safe_json_parse json_loads ''{\"a\": {\"b\": 1}'' = None" .
  from a b c d show ?thesis by simp
qed

section \<open>Properties of the inference configuration\<close>

lemma inference_config_one_sampling_key:
  "(map_of (generation_inference_config p) ''temperature'' = None) \<noteq>
   (map_of (generation_inference_config p) ''topP'' = None)"
  by (simp add: generation_inference_config_def Let_def)

lemma inference_config_nonzero_temperature:
  "temperature p = Some t \<Longrightarrow> t \<noteq> 0 \<Longrightarrow>
   map_of (generation_inference_config p) ''temperature'' = Some (PyFloat t)"
  by (simp add: generation_inference_config_def Let_def float_truthy_def)

text \<open>
  C5. The configuration always holds exactly one of the keys \<open>temperature\<close> and \<open>topP\<close>
  (\<open>inference_config_one_sampling_key\<close>), and a temperature other than zero is sent
  (\<open>inference_config_nonzero_temperature\<close>). A temperature of \<open>0.0\<close> is given and yet not
  sent: the test \<open>if params.temperature:\<close> is false for it. With no top-p the default
  \<open>0.5\<close> is sent in its place, although the comment of that branch reads "Default to
  temperature if neither is specified"; with a top-p, the top-p is sent.
\<close>

theorem inference_config_zero_temperature:
  "generation_inference_config (default_params\<lparr>temperature := Some 0\<rparr>) =
     [(''maxTokens'', PyInt 10240), (''temperature'', PyFloat (1 / 2))] \<and>
   generation_inference_config (default_params\<lparr>temperature := Some 0, top_p := Some (9 / 10)\<rparr>) =
     [(''maxTokens'', PyInt 10240), (''topP'', PyFloat (9 / 10))]"
  by (simp add: generation_inference_config_def default_params_def Let_def float_truthy_def
        int_truthy_def MAX_OUTPUT_TOKENS_def)

section \<open>Properties of the knowledge previews\<close>

lemma py_prefix_take: "0 \<le> n \<Longrightarrow> py_prefix xs n = take (nat n) xs"
  by (simp add: py_prefix_def py_slice_def Let_def min_def)

lemma str_join_map_cong:
  "(\<And>x. x \<in> set xs \<Longrightarrow> f x = g x) \<Longrightarrow> str_join sep (map f xs) = str_join sep (map g xs)"
  by (metis map_cong)

lemma evaluation_knowledge_section_eq:
  "evaluation_knowledge_section docs =
     str_join nl (map (\<lambda>d. ''- '' @ take 500 (content d) @ ''...'') docs)"
  by (simp add: evaluation_knowledge_section_def py_prefix_take)

lemma generation_knowledge_section_eq:
  "generation_knowledge_section docs =
     str_join nl (map (\<lambda>d. ''- '' @ take 500 (content d) @ ''...'') docs)"
  by (simp add: generation_knowledge_section_def py_prefix_take)

lemma refinement_knowledge_section_eq:
  "docs \<noteq> [] \<Longrightarrow> refinement_knowledge_section docs =
     nl @ nl @ ''Reference Context:'' @ nl @
     str_join nl (map (\<lambda>d. ''- '' @ take 300 (content d) @ ''...'') docs)"
  by (simp add: refinement_knowledge_section_def py_prefix_take)

lemma embed_left:
  "\<exists>pre post. \<forall>x. g x = pre @ f x @ post \<Longrightarrow> \<exists>pre post. \<forall>x. a @ g x = pre @ f x @ post"
proof -
  assume "\<exists>pre post. \<forall>x. g x = pre @ f x @ post"
  then obtain pre post where "\<forall>x. g x = pre @ f x @ post" by blast
  then have "\<forall>x. a @ g x = (a @ pre) @ f x @ post" by simp
  then show ?thesis by blast
qed

lemma embed_here: "\<exists>pre post. \<forall>x. f x @ b = pre @ f x @ post"
proof -
  have "\<forall>x. f x @ b = [] @ f x @ b" by simp
  then show ?thesis by blast
qed

lemma embed_end: "\<exists>pre post. \<forall>x. f x = pre @ f x @ post"
proof -
  have "\<forall>x. f x = [] @ f x @ []" by simp
  then show ?thesis by blast
qed

lemma evaluation_prompt_embeds:
  assumes "build_images_section fmt wi = Inr imgs"
  shows "\<exists>pre post. \<forall>docs. build_work_item_evaluation_user_prompt fmt wi docs =
           Inr (pre @ or_none (evaluation_knowledge_section docs) @ post)"
proof -
  have "\<exists>pre post. \<forall>docs. projr (build_work_item_evaluation_user_prompt fmt wi docs) =
           pre @ or_none (evaluation_knowledge_section docs) @ post"
    unfolding build_work_item_evaluation_user_prompt_def Let_def bindE_def assms
    apply (simp only: sum.case sum.sel str_join.simps append_assoc)
    apply (intro embed_left embed_here embed_end)
    done
  moreover have "\<And>docs. build_work_item_evaluation_user_prompt fmt wi docs =
      Inr (projr (build_work_item_evaluation_user_prompt fmt wi docs))"
    unfolding build_work_item_evaluation_user_prompt_def Let_def bindE_def assms by simp
  ultimately show ?thesis by metis
qed

lemma bindE_Inr_iff:
  "bindE m f = Inr y \<longleftrightarrow> (\<exists>x. m = Inr x \<and> f x = Inr y)"
  by (cases m) (simp_all add: bindE_def)

lemma evaluation_prompt_embeds2:
  assumes "build_work_item_evaluation_user_prompt fmt wi [] = Inr p0"
  shows "\<exists>pre post. \<forall>docs. build_work_item_evaluation_user_prompt fmt wi docs =
           Inr (pre @ or_none (evaluation_knowledge_section docs) @ post)"
proof -
  from assms obtain imgs where "build_images_section fmt wi = Inr imgs"
    unfolding build_work_item_evaluation_user_prompt_def Let_def bindE_Inr_iff by blast
  then show ?thesis by (rule evaluation_prompt_embeds)
qed

lemma bindE_Inr: "bindE (Inr x) f = f x"
  by (simp add: bindE_def)

lemma generation_prompt_embeds:
  assumes "build_work_item_generation_user_prompt fmt wi ex [] = Inr p0"
  shows "\<exists>pre post. \<forall>docs. build_work_item_generation_user_prompt fmt wi ex docs =
           Inr (pre @ or_none (generation_knowledge_section docs) @ post)"
proof -
  from assms obtain imgs where imgs: "build_images_section fmt wi = Inr imgs"
    unfolding build_work_item_generation_user_prompt_def bindE_Inr_iff by blast
  from assms obtain l where l:
    "(if ex \<noteq> [] then
        bindE (map_results
                 (child_details fmt
                    (case get_expected_child_work_item_type wi True of
                       Some t \<Rightarrow> t | None \<Rightarrow> ''child work items''))
                 (enumerate_from0 ex))
          (\<lambda>items. Inr (str_join (nl @ nl) items))
      else Inr ''None'') = Inr l"
    unfolding build_work_item_generation_user_prompt_def Let_def bindE_Inr_iff by blast
  have "\<exists>pre post. \<forall>docs. projr (build_work_item_generation_user_prompt fmt wi ex docs) =
           pre @ or_none (generation_knowledge_section docs) @ post"
    unfolding build_work_item_generation_user_prompt_def Let_def imgs
    apply (simp only: bindE_Inr l sum.sel str_join.simps append_assoc)
    apply (intro embed_left embed_here embed_end)
    done
  moreover have "\<And>docs. build_work_item_generation_user_prompt fmt wi ex docs =
      Inr (projr (build_work_item_generation_user_prompt fmt wi ex docs))"
    unfolding build_work_item_generation_user_prompt_def Let_def imgs
    by (simp only: bindE_Inr l sum.sel)
  ultimately show ?thesis by metis
qed

lemma py_get_Inr_iff:
  "py_get x k dflt = Inr v \<longleftrightarrow> (\<exists>d. x = PyDict d \<and> v = dict_get d k dflt)"
  by (cases x) (auto simp add: py_get_def)

lemma process_knowledge_result_content:
  assumes "process_knowledge_result idx r = Inr d"
  shows "(\<exists>c. py_get r ''content'' (PyDict []) = Inr c \<and>
              py_get c ''text'' (PyStr []) = Inr (PyStr (content d))) \<and>
         content_length d = length (content d)"
proof -
  from assms obtain c tv src sc where
    c: "py_get r ''content'' (PyDict []) = Inr c" and
    t: "py_get c ''text'' (PyStr []) = Inr tv" and
    d: "(case tv of PyStr s \<Rightarrow>
           Inr \<lparr>content = s, content_length = length s, source = src, score = sc\<rparr>
         | _ \<Rightarrow> Inl TypeError) = Inr d"
    unfolding process_knowledge_result_def bindE_Inr_iff by blast
  from d obtain s where "tv = PyStr s" and
    "d = \<lparr>content = s, content_length = length s, source = src, score = sc\<rparr>"
    by (cases tv) auto
  with c t show ?thesis by auto
qed

lemma refinement_prompt_ignores_knowledge:
  "build_work_item_refinement_user_prompt fmt wi drafts instructions ex docs =
   build_work_item_refinement_user_prompt fmt wi drafts instructions ex' docs'"
  by (simp add: build_work_item_refinement_user_prompt_def Let_def)

text \<open>
  C6, as amended. The knowledge section of the evaluation and of the generation user prompt
  lists every document as \<open>"- "\<close>, the first 500 characters of its content and \<open>"..."\<close>,
  and each of the two prompts is a fixed text around that section (or around \<open>None\<close> when
  it is empty). The refinement builder previews the first 300 characters. A stored document
  holds the whole retrieved text, and its length.
\<close>

theorem knowledge_previews:
  "evaluation_knowledge_section docs =
     str_join nl (map (\<lambda>d. ''- '' @ take 500 (content d) @ ''...'') docs) \<and>
   generation_knowledge_section docs =
     str_join nl (map (\<lambda>d. ''- '' @ take 500 (content d) @ ''...'') docs) \<and>
   (docs \<noteq> [] \<longrightarrow>
      refinement_knowledge_section docs =
        nl @ nl @ ''Reference Context:'' @ nl @
        str_join nl (map (\<lambda>d. ''- '' @ take 300 (content d) @ ''...'') docs)) \<and>
   (\<forall>p0. build_work_item_evaluation_user_prompt fmt wi [] = Inr p0 \<longrightarrow>
      (\<exists>pre post. \<forall>ds. build_work_item_evaluation_user_prompt fmt wi ds =
         Inr (pre @ or_none (evaluation_knowledge_section ds) @ post))) \<and>
   (\<forall>p0. build_work_item_generation_user_prompt fmt wi ex [] = Inr p0 \<longrightarrow>
      (\<exists>pre post. \<forall>ds. build_work_item_generation_user_prompt fmt wi ex ds =
         Inr (pre @ or_none (generation_knowledge_section ds) @ post))) \<and>
   (\<forall>idx r d. process_knowledge_result idx r = Inr d \<longrightarrow>
      (\<exists>c. py_get r ''content'' (PyDict []) = Inr c \<and>
           py_get c ''text'' (PyStr []) = Inr (PyStr (content d))) \<and>
      content_length d = length (content d))"
  using evaluation_knowledge_section_eq generation_knowledge_section_eq
    refinement_knowledge_section_eq evaluation_prompt_embeds2 generation_prompt_embeds
    process_knowledge_result_content
  by blast

text \<open>
  The claim as stated fails for the refinement prompt: for a document of 301 characters its
  preview is not the first 500 characters (all 301) but the first 300.
\<close>

theorem refinement_preview_counterexample:
  "refinement_knowledge_section
     [\<lparr>content = replicate 301 CHR ''a'', content_length = 301, source = PyStr ''kb'',
       score = PyFloat 0\<rparr>] \<noteq>
   nl @ nl @ ''Reference Context:'' @ nl @
   ''- '' @ take 500 (replicate 301 CHR ''a'') @ ''...''"
proof
  assume "refinement_knowledge_section
     [\<lparr>content = replicate 301 CHR ''a'', content_length = 301, source = PyStr ''kb'',
       score = PyFloat 0\<rparr>] =
   nl @ nl @ ''Reference Context:'' @ nl @
   ''- '' @ take 500 (replicate 301 CHR ''a'') @ ''...''"
  then have "length (refinement_knowledge_section
     [\<lparr>content = replicate 301 CHR ''a'', content_length = 301, source = PyStr ''kb'',
       score = PyFloat 0\<rparr>]) =
   length (nl @ nl @ ''Reference Context:'' @ nl @
   ''- '' @ take 500 (replicate 301 CHR ''a'') @ ''...'')"
    by simp
  then show False
    by (simp add: refinement_knowledge_section_def py_prefix_take)
qed

theorem knowledge_previews_witness:
  "refinement_knowledge_section
     [\<lparr>content = ''alpha'', content_length = 5, source = PyStr ''kb'', score = PyFloat 0\<rparr>] =
     nl @ nl @ ''Reference Context:'' @ nl @ ''- alpha...'' \<and>
   (\<exists>pre post. \<forall>ds.
      build_work_item_evaluation_user_prompt (\<lambda>v. [])
        [(''workItemType'', PyStr ''Epic''), (''title'', PyStr ''Checkout'')] ds =
        Inr (pre @ or_none (evaluation_knowledge_section ds) @ post)) \<and>
   (\<exists>pre post. \<forall>ds.
      build_work_item_generation_user_prompt (\<lambda>v. [])
        [(''workItemType'', PyStr ''Epic''), (''title'', PyStr ''Checkout'')] [] ds =
        Inr (pre @ or_none (generation_knowledge_section ds) @ post)) \<and>
   py_get (PyDict [(''text'', PyStr ''alpha'')]) ''text'' (PyStr []) = Inr (PyStr ''alpha'')"
proof -
  let ?wi = "[(''workItemType'', PyStr ''Epic''), (''title'', PyStr ''Checkout'')]"
  let ?d = "\<lparr>content = ''alpha'', content_length = 5, source = PyStr ''kb'', score = PyFloat 0\<rparr>"
  let ?r = "PyDict [(''content'', PyDict [(''text'', PyStr ''alpha'')]), (''score'', PyFloat 0),
                    (''location'', PyDict [(''s3Location'', PyDict [(''uri'', PyStr ''kb'')])])]"
  note th = knowledge_previews [of "[?d]" "\<lambda>v. []" ?wi "[]"]
  have img: "build_images_section (\<lambda>v. []) ?wi = Inr []"
    by (simp add: build_images_section_def dict_get_def Let_def)
  have e: "\<exists>p0. build_work_item_evaluation_user_prompt (\<lambda>v. []) ?wi [] = Inr p0"
    by (simp add: build_work_item_evaluation_user_prompt_def Let_def img bindE_def)
  have g: "\<exists>p0. build_work_item_generation_user_prompt (\<lambda>v. []) ?wi [] [] = Inr p0"
    by (simp add: build_work_item_generation_user_prompt_def Let_def img bindE_def)
  have r: "process_knowledge_result 0 ?r = Inr ?d"
    by (simp add: process_knowledge_result_def bindE_def py_get_def dict_get_def)
  have a: "refinement_knowledge_section [?d] =
      nl @ nl @ ''Reference Context:'' @ nl @ ''- alpha...''"
    using th by simp
  have b: "\<exists>pre post. \<forall>ds. build_work_item_evaluation_user_prompt (\<lambda>v. []) ?wi ds =
        Inr (pre @ or_none (evaluation_knowledge_section ds) @ post)"
    using th e by blast
  have c: "\<exists>pre post. \<forall>ds. build_work_item_generation_user_prompt (\<lambda>v. []) ?wi [] ds =
        Inr (pre @ or_none (generation_knowledge_section ds) @ post)"
    using th g by blast
  have "\<exists>c. py_get ?r ''content'' (PyDict []) = Inr c \<and>
         py_get c ''text'' (PyStr []) = Inr (PyStr (content ?d))"
    using th r by blast
  then have d: "py_get (PyDict [(''text'', PyStr ''alpha'')]) ''text'' (PyStr []) =
      Inr (PyStr ''alpha'')"
    by (simp add: py_get_def dict_get_def)
  from a b c d show ?thesis by blast
qed

section \<open>Properties of the response parsers\<close>

lemma bindE_Inl: "bindE (Inl e) f = Inl e"
  by (simp add: bindE_def)

lemma bindE_fails: "(\<And>x. \<exists>e. f x = Inl e) \<Longrightarrow> \<exists>e. bindE m f = Inl e"
  by (cases m) (simp_all add: bindE_def)

lemma evaluation_parse_cases:
  assumes mc: "message_content_of response = Inr (PyList (first # rest))"
    and tx: "py_get first ''text'' (PyStr []) = Inr (PyStr s)" and s: "s \<noteq> []"
  shows "parse_work_item_evaluation loads response ctx =
     (case safe_json_parse loads s of
        None \<Rightarrow> Inl InvalidJsonResponse
      | Some parsed \<Rightarrow>
          if \<not> truthy parsed then Inl InvalidJsonResponse
          else bindE (py_get parsed ''pass'' (PyBool False)) (\<lambda>p.
               bindE (py_get parsed ''comment'' PyNone) (\<lambda>c.
                 Inr \<lparr>passed = p, comment = c, sources = map source ctx\<rparr>)))"
  using s by (simp add: parse_work_item_evaluation_def mc tx bindE_Inr cong: if_cong)

lemma generation_parse_cases:
  assumes mc: "message_content_of response = Inr (PyList (first # rest))"
    and tx: "py_get first ''text'' (PyStr []) = Inr (PyStr s)" and s: "s \<noteq> []"
  shows "parse_work_items loads response =
     bindE (parse_debug_extra response) (\<lambda>u.
     bindE (output_tokens_of response) (\<lambda>output_tokens.
     bindE (if truthy output_tokens then py_ge_int output_tokens MAX_OUTPUT_TOKENS
            else Inr False) (\<lambda>over_limit.
       if over_limit then Inl TokenLimitExceeded
       else
         (case safe_json_parse loads s of
            None \<Rightarrow> Inl InvalidJsonResponse
          | Some parsed \<Rightarrow>
              if \<not> truthy parsed then Inl InvalidJsonResponse
              else
                bindE (py_in ''workItems'' parsed) (\<lambda>has_items.
                  if \<not> has_items then Inl InvalidJsonResponse
                  else
                    bindE (py_subscript parsed ''workItems'') (\<lambda>items.
                    bindE (py_len items) (\<lambda>n. Inr items)))))))"
  using s by (simp add: parse_work_items_def mc tx bindE_Inr cong: if_cong)


lemma py_in_dict: "py_in k (PyDict d) = Inr (map_of d k \<noteq> None)"
  by (simp add: py_in_def)

lemma generation_parse_missing_key_fails:
  assumes mc: "message_content_of response = Inr (PyList (first # rest))"
    and tx: "py_get first ''text'' (PyStr []) = Inr (PyStr s)" and s: "s \<noteq> []"
    and p: "safe_json_parse loads s = None \<or>
            (\<exists>d. safe_json_parse loads s = Some (PyDict d) \<and> map_of d ''workItems'' = None)"
  shows "\<exists>e. parse_work_items loads response = Inl e"
  unfolding generation_parse_cases [OF mc tx s]
  using p by (intro bindE_fails) (auto simp add: py_in_dict bindE_Inr)

lemma generation_parse_missing_key:
  assumes mc: "message_content_of response = Inr (PyList (first # rest))"
    and tx: "py_get first ''text'' (PyStr []) = Inr (PyStr s)" and s: "s \<noteq> []"
    and p: "safe_json_parse loads s = None \<or>
            (\<exists>d. safe_json_parse loads s = Some (PyDict d) \<and> map_of d ''workItems'' = None)"
    and dbg: "parse_debug_extra response = Inr ()"
    and tok: "output_tokens_of response = Inr (PyInt n)" and n: "n < MAX_OUTPUT_TOKENS"
  shows "parse_work_items loads response = Inl InvalidJsonResponse"
  unfolding generation_parse_cases [OF mc tx s]
  using p n by (auto simp add: dbg tok py_in_dict bindE_Inr py_ge_int_def)

text \<open>
  C3, as amended. Take a response whose first content block carries a non-empty text. When
  the text does not parse, both parsers raise. When it parses to the empty object, the
  evaluation parser raises. When it parses to a non-empty object without the key \<open>pass\<close>,
  the evaluation parser does not raise: \<open>parsed_response.get("pass", False)\<close> supplies
  \<open>False\<close>, and the result is a failed evaluation with the comment of the object, if any.
  When it parses to an object without the key \<open>workItems\<close>, the generation parser raises,
  and the exception is the invalid-JSON one when the response is otherwise in order.
\<close>

theorem missing_key_handling:
  "message_content_of response = Inr (PyList (first # rest)) \<and>
   py_get first ''text'' (PyStr []) = Inr (PyStr s) \<and> s \<noteq> [] \<longrightarrow>
     (safe_json_parse loads s = None \<longrightarrow>
        parse_work_item_evaluation loads response ctx = Inl InvalidJsonResponse \<and>
        (\<exists>e. parse_work_items loads response = Inl e)) \<and>
     (safe_json_parse loads s = Some (PyDict []) \<longrightarrow>
        parse_work_item_evaluation loads response ctx = Inl InvalidJsonResponse) \<and>
     (\<forall>d. safe_json_parse loads s = Some (PyDict d) \<and> d \<noteq> [] \<and> map_of d ''pass'' = None \<longrightarrow>
        parse_work_item_evaluation loads response ctx =
          Inr \<lparr>passed = PyBool False, comment = dict_get_none d ''comment'',
               sources = map source ctx\<rparr>) \<and>
     (\<forall>d. safe_json_parse loads s = Some (PyDict d) \<and> map_of d ''workItems'' = None \<longrightarrow>
        (\<exists>e. parse_work_items loads response = Inl e) \<and>
        (\<forall>n. parse_debug_extra response = Inr () \<and>
             output_tokens_of response = Inr (PyInt n) \<and> n < MAX_OUTPUT_TOKENS \<longrightarrow>
             parse_work_items loads response = Inl InvalidJsonResponse))"
proof (intro impI)
  assume a: "message_content_of response = Inr (PyList (first # rest)) \<and>
     py_get first ''text'' (PyStr []) = Inr (PyStr s) \<and> s \<noteq> []"
  then have mc: "message_content_of response = Inr (PyList (first # rest))"
    and tx: "py_get first ''text'' (PyStr []) = Inr (PyStr s)" and s: "s \<noteq> []"
    by simp_all
  note ev = evaluation_parse_cases [OF mc tx s, of loads ctx]
  note g1 = generation_parse_missing_key_fails [OF mc tx s, of loads]
  note g2 = generation_parse_missing_key [OF mc tx s, of loads]
  have 1: "safe_json_parse loads s = None \<longrightarrow>
        parse_work_item_evaluation loads response ctx = Inl InvalidJsonResponse \<and>
        (\<exists>e. parse_work_items loads response = Inl e)"
    using ev g1 by simp
  have 2: "safe_json_parse loads s = Some (PyDict []) \<longrightarrow>
        parse_work_item_evaluation loads response ctx = Inl InvalidJsonResponse"
    using ev by simp
  have 3: "\<forall>d. safe_json_parse loads s = Some (PyDict d) \<and> d \<noteq> [] \<and> map_of d ''pass'' = None \<longrightarrow>
        parse_work_item_evaluation loads response ctx =
          Inr \<lparr>passed = PyBool False, comment = dict_get_none d ''comment'',
               sources = map source ctx\<rparr>"
    using ev by (auto simp add: py_get_def dict_get_def dict_get_none_def bindE_Inr)
  have 4: "\<forall>d. safe_json_parse loads s = Some (PyDict d) \<and> map_of d ''workItems'' = None \<longrightarrow>
        (\<exists>e. parse_work_items loads response = Inl e) \<and>
        (\<forall>n. parse_debug_extra response = Inr () \<and>
             output_tokens_of response = Inr (PyInt n) \<and> n < MAX_OUTPUT_TOKENS \<longrightarrow>
             parse_work_items loads response = Inl InvalidJsonResponse)"
    using g1 g2 by blast
  from 1 2 3 4 show "(safe_json_parse loads s = None \<longrightarrow>
        parse_work_item_evaluation loads response ctx = Inl InvalidJsonResponse \<and>
        (\<exists>e. parse_work_items loads response = Inl e)) \<and>
     (safe_json_parse loads s = Some (PyDict []) \<longrightarrow>
        parse_work_item_evaluation loads response ctx = Inl InvalidJsonResponse) \<and>
     (\<forall>d. safe_json_parse loads s = Some (PyDict d) \<and> d \<noteq> [] \<and> map_of d ''pass'' = None \<longrightarrow>
        parse_work_item_evaluation loads response ctx =
          Inr \<lparr>passed = PyBool False, comment = dict_get_none d ''comment'',
               sources = map source ctx\<rparr>) \<and>
     (\<forall>d. safe_json_parse loads s = Some (PyDict d) \<and> map_of d ''workItems'' = None \<longrightarrow>
        (\<exists>e. parse_work_items loads response = Inl e) \<and>
        (\<forall>n. parse_debug_extra response = Inr () \<and>
             output_tokens_of response = Inr (PyInt n) \<and> n < MAX_OUTPUT_TOKENS \<longrightarrow>
             parse_work_items loads response = Inl InvalidJsonResponse))"
    by blast
qed

text \<open>
  The claim as stated fails for the evaluation parser: the text \<open>{"comment": "unclear"}\<close>
  parses, lacks \<open>pass\<close>, and an evaluation result is returned.
\<close>

theorem evaluation_missing_pass_counterexample:
  "parse_work_item_evaluation json_loads (text_response ''{\"comment\": \"unclear\"}'' 12) [] =
     Inr \<lparr>passed = PyBool False, comment = PyStr ''unclear'', sources = []\<rparr>"
  by code_simp

lemma text_response_content:
  "message_content_of (text_response s n) = Inr (PyList [PyDict [(''text'', PyStr s)]])"
  by (simp add: message_content_of_def text_response_def py_get_def dict_get_def bindE_def)

lemma text_response_text:
  "py_get (PyDict [(''text'', PyStr s)]) ''text'' (PyStr []) = Inr (PyStr s)"
  by (simp add: py_get_def dict_get_def)

lemma text_response_tokens: "output_tokens_of (text_response s n) = Inr (PyInt n)"
  by (simp add: output_tokens_of_def text_response_def py_get_def dict_get_def bindE_def)

lemma text_response_debug: "parse_debug_extra (text_response s n) = Inr ()"
  by (simp add: parse_debug_extra_def text_response_def py_get_def py_in_def py_len_def
        dict_get_def bindE_def)

theorem missing_key_handling_witness:
  "parse_work_item_evaluation json_loads (text_response ''no json at all'' 12) [] =
     Inl InvalidJsonResponse \<and>
   parse_work_item_evaluation json_loads (text_response ''{}'' 12) [] = Inl InvalidJsonResponse \<and>
   parse_work_item_evaluation json_loads (text_response ''{\"comment\": \"unclear\"}'' 12)
     [\<lparr>content = ''alpha'', content_length = 5, source = PyStr ''kb'', score = PyFloat 0\<rparr>] =
     Inr \<lparr>passed = PyBool False, comment = PyStr ''unclear'', sources = [PyStr ''kb'']\<rparr> \<and>
   parse_work_items json_loads (text_response ''{\"comment\": \"unclear\"}'' 12) =
     Inl InvalidJsonResponse"
proof -
  let ?d = "\<lparr>content = ''alpha'', content_length = 5, source = PyStr ''kb'', score = PyFloat 0\<rparr>"
  have p1: "safe_json_parse json_loads ''no json at all'' = None"
    by code_simp
  have p2: "safe_json_parse json_loads ''{}'' = Some (PyDict [])"
    by code_simp
  have p3: "safe_json_parse json_loads ''{\"comment\": \"unclear\"}'' =
      Some (PyDict [(''comment'', PyStr ''unclear'')])"
    by code_simp
  have a: "parse_work_item_evaluation json_loads (text_response ''no json at all'' 12) [] =
      Inl InvalidJsonResponse"
    using missing_key_handling
      [of "text_response ''no json at all'' 12" "PyDict [(''text'', PyStr ''no json at all'')]"
        "[]" "''no json at all''" json_loads "[]"]
    by (simp add: text_response_content text_response_text p1)
  have b: "parse_work_item_evaluation json_loads (text_response ''{}'' 12) [] =
      Inl InvalidJsonResponse"
    using missing_key_handling
      [of "text_response ''{}'' 12" "PyDict [(''text'', PyStr ''{}'')]" "[]" "''{}''"
        json_loads "[]"]
    by (simp add: text_response_content text_response_text p2)
  note th = missing_key_handling
      [of "text_response ''{\"comment\": \"unclear\"}'' 12"
        "PyDict [(''text'', PyStr ''{\"comment\": \"unclear\"}'')]" "[]"
        "''{\"comment\": \"unclear\"}''" json_loads]
  have c: "parse_work_item_evaluation json_loads (text_response ''{\"comment\": \"unclear\"}'' 12)
      [?d] = Inr \<lparr>passed = PyBool False, comment = PyStr ''unclear'', sources = [PyStr ''kb'']\<rparr>"
    using th [of "[?d]"]
    by (simp add: text_response_content text_response_text p3 dict_get_none_def dict_get_def)
  have d: "parse_work_items json_loads (text_response ''{\"comment\": \"unclear\"}'' 12) =
      Inl InvalidJsonResponse"
    using th [of "[]"]
    by (simp add: text_response_content text_response_text p3 text_response_debug
          text_response_tokens MAX_OUTPUT_TOKENS_def)
  from a b c d show ?thesis by simp
qed

lemma snd_liftO: "snd (liftO r) = r"
  by (simp add: liftO_def)

lemma snd_callO: "snd (callO c r) = r"
  by (simp add: callO_def)

lemma snd_raiseO: "snd (raiseO e) = Inl e"
  by (simp add: raiseO_def)

lemma bindO_fails_left: "snd m = Inl e \<Longrightarrow> snd (bindO m f) = Inl e"
  by (simp add: bindO_def)

lemma bindO_fails: "(\<And>x. \<exists>e. snd (f x) = Inl e) \<Longrightarrow> \<exists>e. snd (bindO m f) = Inl e"
  by (cases "snd m") (simp_all add: bindO_def)

lemma bindO_Inr: "snd m = Inr x \<Longrightarrow> snd (bindO m f) = snd (f x)"
  by (simp add: bindO_def)

lemma catchO_fails: "\<exists>e. snd m = Inl e \<Longrightarrow> snd (catchO m (\<lambda>e. raiseO e')) = Inl e'"
  by (auto simp add: catchO_def raiseO_def)

lemma parse_over_limit_fails:
  assumes "output_tokens_of response = Inr (PyInt n)" and "MAX_OUTPUT_TOKENS \<le> n"
  shows "\<exists>e. parse_work_items loads response = Inl e"
proof -
  from assms(2) have n: "n \<noteq> 0" by (simp add: MAX_OUTPUT_TOKENS_def)
  show ?thesis
    unfolding parse_work_items_def
  proof (intro bindE_fails)
    fix u mc
    show "\<exists>e. (case mc of
        PyList (first # rest) \<Rightarrow>
          bindE (py_get first ''text'' (PyStr [])) (\<lambda>text.
          bindE (output_tokens_of response) (\<lambda>output_tokens.
            if \<not> truthy text then Inl NoTextContent
            else
              bindE (if truthy output_tokens then py_ge_int output_tokens MAX_OUTPUT_TOKENS
                     else Inr False) (\<lambda>over_limit.
                if over_limit then Inl TokenLimitExceeded
                else
                  (case text of
                     PyStr s \<Rightarrow>
                       (case safe_json_parse loads s of
                          None \<Rightarrow> Inl InvalidJsonResponse
                        | Some parsed_response \<Rightarrow>
                            if \<not> truthy parsed_response then Inl InvalidJsonResponse
                            else
                              bindE (py_in ''workItems'' parsed_response) (\<lambda>has_items.
                                if \<not> has_items then Inl InvalidJsonResponse
                                else
                                  bindE (py_subscript parsed_response ''workItems'') (\<lambda>items.
                                  bindE (py_len items) (\<lambda>n. Inr items))))
                   | _ \<Rightarrow> Inl AttributeError))))
      | _ \<Rightarrow> Inl InvalidMessageContent) = Inl e"
    proof (cases mc)
      case (PyList xs)
      then show ?thesis
        using n assms
        by (cases xs) (auto simp add: bindE_def py_ge_int_def split: sum.splits)
    qed simp_all
  qed
qed

lemma parse_over_limit_token_error:
  assumes "output_tokens_of response = Inr (PyInt n)" and "MAX_OUTPUT_TOKENS \<le> n"
    and "parse_debug_extra response = Inr ()"
    and "message_content_of response = Inr (PyList (first # rest))"
    and "py_get first ''text'' (PyStr []) = Inr tx" and "truthy tx"
  shows "parse_work_items loads response = Inl TokenLimitExceeded"
proof -
  from assms(2) have n: "n \<noteq> 0" by (simp add: MAX_OUTPUT_TOKENS_def)
  show ?thesis
    using assms n by (simp add: parse_work_items_def bindE_Inr py_ge_int_def)
qed

lemma invoke_generation_over_limit:
  assumes conv: "\<forall>m b c sp. env_converse env m b c sp = Inr response"
    and tok: "output_tokens_of response = Inr (PyInt n)" and n: "MAX_OUTPUT_TOKENS \<le> n"
  shows "\<exists>e. snd (invoke_model_for_work_item_generation env svc wi ex params kc) = Inl e"
  unfolding invoke_model_for_work_item_generation_def Let_def
proof (intro bindO_fails)
  fix system_prompt user_prompt blocks
  let ?call = "callO (ConverseCall (model_id svc) blocks (generation_inference_config params)
                  system_prompt)
               (env_converse env (model_id svc) blocks (generation_inference_config params)
                  system_prompt)"
  let ?body = "bindO ?call (\<lambda>response.
      bindO (liftO (response_log_extra response)) (\<lambda>u.
        liftO (parse_work_items (env_loads env) response)))"
  have "snd ?call = Inr response"
    using conv by (simp add: snd_callO)
  then have "snd ?body =
      snd (bindO (liftO (response_log_extra response)) (\<lambda>u.
        liftO (parse_work_items (env_loads env) response)))"
    by (rule bindO_Inr)
  moreover have "\<exists>e. snd (bindO (liftO (response_log_extra response)) (\<lambda>u.
        liftO (parse_work_items (env_loads env) response))) = Inl e"
    using parse_over_limit_fails [OF tok n, of "env_loads env"]
    by (intro bindO_fails) (simp add: snd_liftO)
  ultimately have "\<exists>e. snd ?body = Inl e" by simp
  then have "snd (catchO ?body (\<lambda>e. raiseO TypeError)) = Inl TypeError"
    by (rule catchO_fails)
  then show "\<exists>e. snd (catchO ?body (\<lambda>e. raiseO TypeError)) = Inl e"
    by blast
qed

lemma generate_over_limit:
  assumes conv: "\<forall>m b c sp. env_converse env m b c sp = Inr response"
    and tok: "output_tokens_of response = Inr (PyInt n)" and n: "MAX_OUTPUT_TOKENS \<le> n"
  shows "\<exists>e. snd (generate_work_items env svc wi ex params) = Inl e"
proof -
  have inv: "\<exists>e. snd (bindO (invoke_model_for_work_item_generation env svc wi ex p kc) f) = Inl e"
    for p kc and f :: "pyval \<Rightarrow> BedrockWorkItemGenerationResponse outcome"
    using invoke_generation_over_limit [OF conv tok n, of svc wi ex p kc] bindO_fails_left
    by blast
  show ?thesis
    unfolding generate_work_items_def Let_def
    apply (rule bindO_fails)
    apply (rule bindO_fails)
    apply (rule bindO_fails)
    apply (rule bindO_fails)
    apply (rule inv)
    done
qed

text \<open>
  C2, as amended. The ceiling is the module constant \<open>MAX_OUTPUT_TOKENS\<close> (10240). For
  every response that reports at least that many output tokens the generation parser raises;
  the exception is the token-limit one when the response has passed the checks that come
  first (a non-empty content list whose first block carries a non-empty text). When the
  inference client answers with such a response, \<open>generate_work_items\<close> raises and
  returns no work items.
\<close>

theorem token_limit_enforced:
  "output_tokens_of response = Inr (PyInt n) \<and> MAX_OUTPUT_TOKENS \<le> n \<longrightarrow>
     (\<exists>e. parse_work_items loads response = Inl e) \<and>
     (\<forall>first rest tx.
        parse_debug_extra response = Inr () \<and>
        message_content_of response = Inr (PyList (first # rest)) \<and>
        py_get first ''text'' (PyStr []) = Inr tx \<and> truthy tx \<longrightarrow>
        parse_work_items loads response = Inl TokenLimitExceeded) \<and>
     (\<forall>env svc wi ex params.
        (\<forall>m b c sp. env_converse env m b c sp = Inr response) \<longrightarrow>
        (\<exists>e. snd (generate_work_items env svc wi ex params) = Inl e))"
proof (intro impI conjI allI)
  assume a: "output_tokens_of response = Inr (PyInt n) \<and> MAX_OUTPUT_TOKENS \<le> n"
  then show "\<exists>e. parse_work_items loads response = Inl e"
    using parse_over_limit_fails by blast
next
  fix first rest tx
  assume a: "output_tokens_of response = Inr (PyInt n) \<and> MAX_OUTPUT_TOKENS \<le> n"
    and b: "parse_debug_extra response = Inr () \<and>
        message_content_of response = Inr (PyList (first # rest)) \<and>
        py_get first ''text'' (PyStr []) = Inr tx \<and> truthy tx"
  show "parse_work_items loads response = Inl TokenLimitExceeded"
    using a b parse_over_limit_token_error [of response n first rest tx loads] by blast
next
  fix env :: environment and svc :: service and wi :: dict and ex :: "pyval list"
    and params :: "BedrockInferenceParams option"
  assume a: "output_tokens_of response = Inr (PyInt n) \<and> MAX_OUTPUT_TOKENS \<le> n"
    and c: "\<forall>m b c sp. env_converse env m b c sp = Inr response"
  show "\<exists>e. snd (generate_work_items env svc wi ex params) = Inl e"
    using a generate_over_limit [OF c, of n svc wi ex params] by blast
qed

theorem token_limit_enforced_witness:
  "parse_work_items json_loads (text_response ''{\"workItems\": [{\"title\": \"1. A\"}]}'' 10240) =
     Inl TokenLimitExceeded \<and>
   (\<exists>e. snd (generate_work_items
              (answering_environment
                 (text_response ''{\"workItems\": [{\"title\": \"1. A\"}]}'' 10240))
              tool_service sample_epic [] None) = Inl e)"
proof -
  let ?r = "text_response ''{\"workItems\": [{\"title\": \"1. A\"}]}'' 10240"
  note th = token_limit_enforced [of ?r 10240 json_loads]
  have h: "output_tokens_of ?r = Inr (PyInt 10240) \<and> MAX_OUTPUT_TOKENS \<le> 10240"
    by (simp add: text_response_tokens MAX_OUTPUT_TOKENS_def)
  have a: "parse_work_items json_loads ?r = Inl TokenLimitExceeded"
    using th h text_response_debug [of "''{\"workItems\": [{\"title\": \"1. A\"}]}''" 10240]
      text_response_content [of "''{\"workItems\": [{\"title\": \"1. A\"}]}''" 10240]
      text_response_text [of "''{\"workItems\": [{\"title\": \"1. A\"}]}''"]
    by (metis truthy.simps(5) list.distinct(1))
  have "\<forall>m b c sp. env_converse (answering_environment ?r) m b c sp = Inr ?r"
    by (simp add: answering_environment_def)
  then have b: "\<exists>e. snd (generate_work_items (answering_environment ?r) tool_service
      sample_epic [] None) = Inl e"
    using th h by blast
  from a b show ?thesis by blast
qed

text \<open>
  The claim as stated fails for a configured maximum other than the constant: with
  \<open>max_tokens = 100\<close> the request carries \<open>maxTokens = 100\<close>, the response reports 100
  output tokens, and the work items are returned.
\<close>

theorem configured_limit_counterexample:
  "generation_inference_config (default_params\<lparr>max_tokens := Some 100\<rparr>) =
     [(''maxTokens'', PyInt 100), (''temperature'', PyFloat (1 / 2))] \<and>
   snd (generate_work_items
          (answering_environment (text_response ''{\"workItems\": [{\"title\": \"1. A\"}]}'' 100))
          tool_service sample_epic [] (Some (default_params\<lparr>max_tokens := Some 100\<rparr>))) =
     Inr \<lparr>work_items = PyList [PyDict [(''title'', PyStr ''1. A'')]], documents = []\<rparr>"
  by code_simp

section \<open>Properties of the content builder\<close>

lemma process_image_dict:
  "process_image env svc (PyDict img) =
     ([FetchImageCall (image_url img)], Inr (accepted_block env svc img))"
  by (auto simp add: process_image_def accepted_block_def image_url_def catchO_def bindO_def
        callO_def returnO_def liftO_def split: sum.splits option.splits)

lemma process_images_dicts:
  "process_images env svc blocks (map PyDict imgs) =
     (map (\<lambda>img. FetchImageCall (image_url img)) imgs,
      Inr (blocks @ List.map_filter (accepted_block env svc) imgs))"
proof (induction imgs arbitrary: blocks)
  case Nil
  show ?case by (simp add: returnO_def List.map_filter_simps)
next
  case (Cons img imgs)
  show ?case
    by (cases "accepted_block env svc img")
       (simp_all add: process_image_dict bindO_def Cons.IH List.map_filter_simps)
qed

lemma map_filter_length:
  "length (List.map_filter f xs) = length (filter (\<lambda>x. f x \<noteq> None) xs)"
  by (induction xs) (auto simp add: List.map_filter_simps split: option.splits)

lemma build_model_content_dicts:
  assumes imgs: "map_of wi ''images'' = Some (PyList (map PyDict imgs))"
    and n: "0 \<le> max_images svc"
  shows "build_model_content env svc wi user_text =
     (map (\<lambda>img. FetchImageCall (image_url img)) (take (nat (max_images svc)) imgs),
      Inr (TextBlock user_text #
           List.map_filter (accepted_block env svc) (take (nat (max_images svc)) imgs)))"
proof (cases imgs)
  case Nil
  then show ?thesis
    using imgs
    by (simp add: build_model_content_def dict_get_def returnO_def Let_def
          List.map_filter_simps)
next
  case (Cons a as)
  have "py_prefix (map PyDict imgs) (max_images svc) =
      map PyDict (take (nat (max_images svc)) imgs)"
    using n by (simp add: py_prefix_take take_map)
  then show ?thesis
    using imgs Cons
    by (simp add: build_model_content_def dict_get_def Let_def sliced_entries_def bindO_def
          liftO_def process_images_dicts)
qed

lemma accepted_block_image:
  "accepted_block env svc img = Some b \<Longrightarrow> \<exists>f bs. b = ImageBlock f bs"
  by (auto simp add: accepted_block_def split: sum.splits option.splits if_splits)

lemma build_model_content_no_images:
  "map_of wi ''images'' = None \<Longrightarrow>
   build_model_content env svc wi user_text = ([], Inr [TextBlock user_text])"
  by (simp add: build_model_content_def dict_get_def returnO_def Let_def)

lemma three_of_five:
  assumes "length imgs = 5"
  obtains a b c rest where "take 3 imgs = [a, b, c]" and "a \<in> set imgs" "b \<in> set imgs" "c \<in> set imgs"
proof -
  from assms obtain a b c d e where "imgs = [a, b, c, d, e]"
    by (auto simp add: length_Suc_conv eval_nat_numeral)
  then show ?thesis using that by simp
qed

text \<open>
  C7. For a work item whose \<open>images\<close> entry is a list of \<open>k\<close> image references and a
  maximum \<open>N \<ge> 0\<close>, the content is the text block followed by the blocks of the accepted
  images among the first \<open>min k N\<close> references, in order; only these references are
  fetched; the number of blocks is one plus the number of accepted images and at most
  \<open>1 + min k N\<close>. With five references, a maximum of three and every fetch accepted, the
  content is the text block and three image blocks. Without an \<open>images\<close> entry the content
  is the text block alone.
\<close>

theorem content_blocks_spec:
  "(map_of wi ''images'' = Some (PyList (map PyDict imgs)) \<and> 0 \<le> max_images svc \<longrightarrow>
      snd (build_model_content env svc wi user_text) =
        Inr (TextBlock user_text #
             List.map_filter (accepted_block env svc) (take (nat (max_images svc)) imgs)) \<and>
      fst (build_model_content env svc wi user_text) =
        map (\<lambda>img. FetchImageCall (image_url img)) (take (nat (max_images svc)) imgs) \<and>
      (\<exists>blocks. snd (build_model_content env svc wi user_text) = Inr blocks \<and>
         length blocks =
           1 + length (filter (\<lambda>img. accepted_block env svc img \<noteq> None)
                         (take (nat (max_images svc)) imgs)) \<and>
         length blocks \<le> 1 + min (length imgs) (nat (max_images svc))) \<and>
      (length imgs = 5 \<and> max_images svc = 3 \<and>
       (\<forall>img \<in> set imgs. accepted_block env svc img \<noteq> None) \<longrightarrow>
         (\<exists>f1 b1 f2 b2 f3 b3. snd (build_model_content env svc wi user_text) =
            Inr [TextBlock user_text, ImageBlock f1 b1, ImageBlock f2 b2, ImageBlock f3 b3]))) \<and>
   (map_of wi ''images'' = None \<longrightarrow>
      build_model_content env svc wi user_text = ([], Inr [TextBlock user_text]))"
proof (intro conjI impI)
  assume a: "map_of wi ''images'' = Some (PyList (map PyDict imgs)) \<and> 0 \<le> max_images svc"
  note eq = build_model_content_dicts [of wi imgs svc env user_text]
  let ?first = "take (nat (max_images svc)) imgs"
  show s: "snd (build_model_content env svc wi user_text) =
      Inr (TextBlock user_text # List.map_filter (accepted_block env svc) ?first)"
    using a eq by simp
  show "fst (build_model_content env svc wi user_text) =
      map (\<lambda>img. FetchImageCall (image_url img)) ?first"
    using a eq by simp
  have "length (filter (\<lambda>img. accepted_block env svc img \<noteq> None) ?first) \<le> length ?first"
    by (rule length_filter_le)
  then have "length (TextBlock user_text # List.map_filter (accepted_block env svc) ?first) \<le>
      1 + min (length imgs) (nat (max_images svc))"
    by (simp add: map_filter_length)
  then show "\<exists>blocks. snd (build_model_content env svc wi user_text) = Inr blocks \<and>
      length blocks =
        1 + length (filter (\<lambda>img. accepted_block env svc img \<noteq> None) ?first) \<and>
      length blocks \<le> 1 + min (length imgs) (nat (max_images svc))"
    using s by (simp add: map_filter_length)
  show "\<exists>f1 b1 f2 b2 f3 b3. snd (build_model_content env svc wi user_text) =
      Inr [TextBlock user_text, ImageBlock f1 b1, ImageBlock f2 b2, ImageBlock f3 b3]"
    if h: "length imgs = 5 \<and> max_images svc = 3 \<and>
       (\<forall>img \<in> set imgs. accepted_block env svc img \<noteq> None)"
  proof -
    from h obtain a b c where t: "take 3 imgs = [a, b, c]"
      and m: "a \<in> set imgs" "b \<in> set imgs" "c \<in> set imgs"
      using three_of_five by metis
    have ex: "\<exists>f bs. accepted_block env svc img = Some (ImageBlock f bs)" if "img \<in> set imgs" for img
    proof -
      from h that obtain x where "accepted_block env svc img = Some x" by auto
      then show ?thesis using accepted_block_image by blast
    qed
    from ex [OF m(1)] obtain f1 b1 where "accepted_block env svc a = Some (ImageBlock f1 b1)"
      by blast
    moreover from ex [OF m(2)] obtain f2 b2 where
      "accepted_block env svc b = Some (ImageBlock f2 b2)"
      by blast
    moreover from ex [OF m(3)] obtain f3 b3 where
      "accepted_block env svc c = Some (ImageBlock f3 b3)"
      by blast
    ultimately have "List.map_filter (accepted_block env svc) [a, b, c] =
        [ImageBlock f1 b1, ImageBlock f2 b2, ImageBlock f3 b3]"
      by (simp add: List.map_filter_simps)
    then show ?thesis
      using s h t by simp
  qed
next
  assume "map_of wi ''images'' = None"
  then show "build_model_content env svc wi user_text = ([], Inr [TextBlock user_text])"
    by (rule build_model_content_no_images)
qed

theorem content_blocks_spec_witness:
  "build_model_content picture_environment tool_service
     (sample_epic @ [(''images'', PyList (map PyDict five_images))]) ''Describe'' =
     ([FetchImageCall (PyStr ''https://example.org/1.png''),
       FetchImageCall (PyStr ''https://example.org/2.png''),
       FetchImageCall (PyStr ''https://example.org/3.png'')],
      Inr [TextBlock ''Describe'',
           ImageBlock ''png'' [CHR 0x89, CHR 0x50, CHR 0x4E, CHR 0x47],
           ImageBlock ''png'' [CHR 0x89, CHR 0x50, CHR 0x4E, CHR 0x47],
           ImageBlock ''png'' [CHR 0x89, CHR 0x50, CHR 0x4E, CHR 0x47]]) \<and>
   build_model_content picture_environment tool_service sample_epic ''Describe'' =
     ([], Inr [TextBlock ''Describe''])"
proof -
  let ?wi = "sample_epic @ [(''images'', PyList (map PyDict five_images))]"
  note th = content_blocks_spec [of ?wi five_images tool_service picture_environment "''Describe''"]
  have h1: "map_of ?wi ''images'' = Some (PyList (map PyDict five_images)) \<and>
      0 \<le> max_images tool_service"
    by (simp add: sample_epic_def tool_service_def)
  have v: "is_image_size_valid tool_service ''iVBORw==''"
    by (simp add: is_image_size_valid_def tool_service_def Let_def)
  have f: "detect_image_format [CHR 0x89, CHR 0x50, CHR 0x4E, CHR 0x47] = ''png''"
    by (simp add: detect_image_format_def byte_at_def)
  have acc: "List.map_filter (accepted_block picture_environment tool_service)
      (take (nat (max_images tool_service)) five_images) =
      [ImageBlock ''png'' [CHR 0x89, CHR 0x50, CHR 0x4E, CHR 0x47],
       ImageBlock ''png'' [CHR 0x89, CHR 0x50, CHR 0x4E, CHR 0x47],
       ImageBlock ''png'' [CHR 0x89, CHR 0x50, CHR 0x4E, CHR 0x47]]"
    by (simp add: five_images_def tool_service_def List.map_filter_simps accepted_block_def
          image_url_def dict_get_def picture_environment_def v [unfolded tool_service_def] f)
  have calls: "map (\<lambda>img. FetchImageCall (image_url img))
      (take (nat (max_images tool_service)) five_images) =
      [FetchImageCall (PyStr ''https://example.org/1.png''),
       FetchImageCall (PyStr ''https://example.org/2.png''),
       FetchImageCall (PyStr ''https://example.org/3.png'')]"
    by (simp add: five_images_def tool_service_def image_url_def dict_get_def)
  have a: "build_model_content picture_environment tool_service ?wi ''Describe'' =
     ([FetchImageCall (PyStr ''https://example.org/1.png''),
       FetchImageCall (PyStr ''https://example.org/2.png''),
       FetchImageCall (PyStr ''https://example.org/3.png'')],
      Inr [TextBlock ''Describe'',
           ImageBlock ''png'' [CHR 0x89, CHR 0x50, CHR 0x4E, CHR 0x47],
           ImageBlock ''png'' [CHR 0x89, CHR 0x50, CHR 0x4E, CHR 0x47],
           ImageBlock ''png'' [CHR 0x89, CHR 0x50, CHR 0x4E, CHR 0x47]])"
    using th h1 acc calls by (simp add: prod_eq_iff)
  have "map_of sample_epic ''images'' = None"
    by (simp add: sample_epic_def)
  then have b: "build_model_content picture_environment tool_service sample_epic ''Describe'' =
     ([], Inr [TextBlock ''Describe''])"
    using content_blocks_spec [of sample_epic "[]" tool_service picture_environment "''Describe''"]
    by blast
  from a b show ?thesis by simp
qed

section \<open>Properties of the knowledge retrieval\<close>

lemma snd_returnO: "snd (returnO x) = Inr x"
  by (simp add: returnO_def)

lemma bindO_lift_Inr: "snd (bindO (liftO (Inr x)) f) = snd (f x)"
  by (simp add: bindO_def liftO_def)

lemma catchO_returns:
  "\<exists>y. snd (catchO m (\<lambda>e. returnO x)) = Inr y"
  by (cases "snd m") (simp_all add: catchO_def returnO_def)

lemma catchO_default:
  "snd m = Inl e \<Longrightarrow> snd (catchO m (\<lambda>e. returnO x)) = Inr x"
  by (simp add: catchO_def returnO_def)

lemma retrieve_never_raises:
  "\<exists>docs. snd (retrieve_knowledge_context env svc query filters) = Inr docs"
  unfolding retrieve_knowledge_context_def by (rule catchO_returns)

lemma retrieve_failure_empty:
  assumes "\<forall>kb q c. \<exists>e. env_retrieve env kb q c = Inl e"
  shows "snd (retrieve_knowledge_context env svc query filters) = Inr []"
proof -
  let ?cfg = "PyDict [(''vectorSearchConfiguration'',
      PyDict (if filters \<noteq> []
              then dict_update [(''numberOfResults'', PyInt (max_knowledge_documents svc))] filters
              else [(''numberOfResults'', PyInt (max_knowledge_documents svc))]))]"
  from assms obtain e where e: "env_retrieve env (knowledge_base_id svc) query ?cfg = Inl e"
    by blast
  have "snd (callO (RetrieveCall (knowledge_base_id svc) query ?cfg)
          (env_retrieve env (knowledge_base_id svc) query ?cfg)) = Inl e"
    by (simp add: snd_callO e)
  then show ?thesis
    unfolding retrieve_knowledge_context_def Let_def
    by (intro catchO_default bindO_fails_left)
qed

lemma evaluate_with_failed_retrieval:
  assumes r: "\<forall>kb q c. \<exists>e. env_retrieve env kb q c = Inl e"
    and t: "subscript wi ''workItemType'' = Inr t" and i: "subscript wi ''workItemId'' = Inr i"
    and q: "build_work_item_evaluation_knowledge_query (env_fmt env) wi = Inr q"
  shows "snd (evaluate_work_item env svc wi) =
         snd (invoke_model_for_work_item_evaluation env svc wi [])"
  unfolding evaluate_work_item_def Let_def t i q bindO_lift_Inr
  by (rule bindO_Inr) (rule retrieve_failure_empty [OF r])

lemma generate_with_failed_retrieval:
  assumes r: "\<forall>kb q c. \<exists>e. env_retrieve env kb q c = Inl e"
    and t: "subscript wi ''workItemType'' = Inr t" and i: "subscript wi ''workItemId'' = Inr i"
    and q: "build_work_item_breakdown_knowledge_query (env_fmt env) wi = Inr q"
  shows "snd (generate_work_items env svc wi ex (Some params)) =
         (case snd (invoke_model_for_work_item_generation env svc wi ex params []) of
            Inl e \<Rightarrow> Inl e
          | Inr items \<Rightarrow> Inr \<lparr>work_items = items, documents = []\<rparr>)"
proof -
  have "snd (generate_work_items env svc wi ex (Some params)) =
      snd (bindO (invoke_model_for_work_item_generation env svc wi ex params [])
             (\<lambda>items. returnO \<lparr>work_items = items, documents = []\<rparr>))"
    unfolding generate_work_items_def Let_def t i q bindO_lift_Inr option.case
    by (rule bindO_Inr) (rule retrieve_failure_empty [OF r])
  then show ?thesis
    by (simp add: bindO_def returnO_def split: sum.splits)
qed

text \<open>
  C9. \<open>retrieve_knowledge_context\<close> never raises, and when the knowledge-base client raises it
  returns the empty list. The enclosing operation then goes on: for a work item that has the
  fields its first log and its query read, \<open>evaluate_work_item\<close> yields what the model
  invocation yields on an empty knowledge context, and \<open>generate_work_items\<close> yields the
  items of the generation invocation on an empty context, with no documents.
\<close>

theorem retrieval_failure_tolerated:
  "(\<exists>docs. snd (retrieve_knowledge_context env svc query filters) = Inr docs) \<and>
   ((\<forall>kb q c. \<exists>e. env_retrieve env kb q c = Inl e) \<longrightarrow>
      snd (retrieve_knowledge_context env svc query filters) = Inr [] \<and>
      (\<forall>t i q. subscript wi ''workItemType'' = Inr t \<and> subscript wi ''workItemId'' = Inr i \<and>
         build_work_item_evaluation_knowledge_query (env_fmt env) wi = Inr q \<longrightarrow>
         snd (evaluate_work_item env svc wi) =
           snd (invoke_model_for_work_item_evaluation env svc wi [])) \<and>
      (\<forall>t i q. subscript wi ''workItemType'' = Inr t \<and> subscript wi ''workItemId'' = Inr i \<and>
         build_work_item_breakdown_knowledge_query (env_fmt env) wi = Inr q \<longrightarrow>
         snd (generate_work_items env svc wi ex (Some params)) =
           (case snd (invoke_model_for_work_item_generation env svc wi ex params []) of
              Inl e \<Rightarrow> Inl e
            | Inr items \<Rightarrow> Inr \<lparr>work_items = items, documents = []\<rparr>)))"
proof (intro conjI impI allI)
  show "\<exists>docs. snd (retrieve_knowledge_context env svc query filters) = Inr docs"
    by (rule retrieve_never_raises)
next
  assume "\<forall>kb q c. \<exists>e. env_retrieve env kb q c = Inl e"
  then show "snd (retrieve_knowledge_context env svc query filters) = Inr []"
    by (rule retrieve_failure_empty)
next
  fix t i q
  assume r: "\<forall>kb q c. \<exists>e. env_retrieve env kb q c = Inl e"
    and h: "subscript wi ''workItemType'' = Inr t \<and> subscript wi ''workItemId'' = Inr i \<and>
         build_work_item_evaluation_knowledge_query (env_fmt env) wi = Inr q"
  show "snd (evaluate_work_item env svc wi) =
      snd (invoke_model_for_work_item_evaluation env svc wi [])"
    using h evaluate_with_failed_retrieval [OF r, of wi t i q svc] by blast
next
  fix t i q
  assume r: "\<forall>kb q c. \<exists>e. env_retrieve env kb q c = Inl e"
    and h: "subscript wi ''workItemType'' = Inr t \<and> subscript wi ''workItemId'' = Inr i \<and>
         build_work_item_breakdown_knowledge_query (env_fmt env) wi = Inr q"
  show "snd (generate_work_items env svc wi ex (Some params)) =
      (case snd (invoke_model_for_work_item_generation env svc wi ex params []) of
         Inl e \<Rightarrow> Inl e
       | Inr items \<Rightarrow> Inr \<lparr>work_items = items, documents = []\<rparr>)"
    using h generate_with_failed_retrieval [OF r, of wi t i q svc ex params] by blast
qed

theorem retrieval_failure_tolerated_witness:
  "snd (retrieve_knowledge_context (answering_environment (text_response ''{\"pass\": true}'' 40))
          tool_service ''guidelines'' []) = Inr [] \<and>
   snd (evaluate_work_item (answering_environment (text_response ''{\"pass\": true}'' 40))
          tool_service sample_epic) =
     Inr \<lparr>passed = PyBool True, comment = PyNone, sources = []\<rparr>"
proof -
  let ?env = "answering_environment (text_response ''{\"pass\": true}'' 40)"
  note th = retrieval_failure_tolerated [of ?env tool_service _ _ sample_epic]
  have r: "\<forall>kb q c. \<exists>e. env_retrieve ?env kb q c = Inl e"
    by (simp add: answering_environment_def)
  have a: "snd (retrieve_knowledge_context ?env tool_service ''guidelines'' []) = Inr []"
    using th [of "''guidelines''" "[]"] r by blast
  have h: "subscript sample_epic ''workItemType'' = Inr (PyStr ''Epic'') \<and>
      subscript sample_epic ''workItemId'' = Inr (PyInt 7) \<and>
      (\<exists>q. build_work_item_evaluation_knowledge_query (env_fmt ?env) sample_epic = Inr q)"
    by (simp add: subscript_def sample_epic_def build_work_item_evaluation_knowledge_query_def
          bindE_def Let_def)
  have "snd (evaluate_work_item ?env tool_service sample_epic) =
      snd (invoke_model_for_work_item_evaluation ?env tool_service sample_epic [])"
    using th [of "''guidelines''" "[]"] r h by blast
  also have "\<dots> = Inr \<lparr>passed = PyBool True, comment = PyNone, sources = []\<rparr>"
    by code_simp
  finally show ?thesis using a by simp
qed

section \<open>Properties of the evaluation tool\<close>

lemma tagged_tool_result:
  assumes "map_of wi ''tags'' = Some (PyList tags)" and "PyStr ''Task Genie'' \<in> set tags"
  shows "evaluate_work_item_tool env svc wi =
     (case subscript wi ''workItemType'' of
        Inl e \<Rightarrow> ([], ErrorMessage e)
      | Inr t \<Rightarrow> ([], AlreadyEvaluated (already_evaluated_notice (py_format (env_fmt env) t))))"
  using assms by (simp add: evaluate_work_item_tool_def dict_get_def py_in_def Let_def)

text \<open>
  C10. For a work item whose tag list contains \<open>Task Genie\<close> the tool makes no call to any
  collaborator (no knowledge retrieval, no model call), never returns the JSON of an
  evaluation result, and returns the same string whatever the collaborators would answer;
  for a work item that has its type, that string is the already-evaluated notice, which
  names the type twice.
\<close>

theorem tagged_work_item_not_evaluated:
  "map_of wi ''tags'' = Some (PyList tags) \<and> PyStr ''Task Genie'' \<in> set tags \<longrightarrow>
     fst (evaluate_work_item_tool env svc wi) = [] \<and>
     (\<forall>p c s. snd (evaluate_work_item_tool env svc wi) \<noteq> EvaluationJson p c s) \<and>
     (\<forall>t. map_of wi ''workItemType'' = Some t \<longrightarrow>
        evaluate_work_item_tool env svc wi =
          ([], AlreadyEvaluated (already_evaluated_notice (py_format (env_fmt env) t)))) \<and>
     (\<forall>env'. env_fmt env' = env_fmt env \<longrightarrow>
        evaluate_work_item_tool env' svc wi = evaluate_work_item_tool env svc wi)"
proof (intro impI)
  assume a: "map_of wi ''tags'' = Some (PyList tags) \<and> PyStr ''Task Genie'' \<in> set tags"
  then have eq: "evaluate_work_item_tool e svc wi =
     (case subscript wi ''workItemType'' of
        Inl x \<Rightarrow> ([], ErrorMessage x)
      | Inr t \<Rightarrow> ([], AlreadyEvaluated (already_evaluated_notice (py_format (env_fmt e) t))))"
    for e
    using tagged_tool_result by blast
  show "fst (evaluate_work_item_tool env svc wi) = [] \<and>
     (\<forall>p c s. snd (evaluate_work_item_tool env svc wi) \<noteq> EvaluationJson p c s) \<and>
     (\<forall>t. map_of wi ''workItemType'' = Some t \<longrightarrow>
        evaluate_work_item_tool env svc wi =
          ([], AlreadyEvaluated (already_evaluated_notice (py_format (env_fmt env) t)))) \<and>
     (\<forall>env'. env_fmt env' = env_fmt env \<longrightarrow>
        evaluate_work_item_tool env' svc wi = evaluate_work_item_tool env svc wi)"
    by (auto simp add: eq subscript_def split: sum.splits option.splits)
qed

theorem tagged_work_item_not_evaluated_witness:
  "evaluate_work_item_tool (answering_environment (text_response ''{\"pass\": true}'' 40))
     tool_service
     (sample_epic @ [(''tags'', PyList [PyStr ''Sprint 4'', PyStr ''Task Genie''])]) =
     ([], AlreadyEvaluated (already_evaluated_notice ''Epic''))"
proof -
  let ?wi = "sample_epic @ [(''tags'', PyList [PyStr ''Sprint 4'', PyStr ''Task Genie''])]"
  have h: "map_of ?wi ''tags'' = Some (PyList [PyStr ''Sprint 4'', PyStr ''Task Genie'']) \<and>
      PyStr ''Task Genie'' \<in> set [PyStr ''Sprint 4'', PyStr ''Task Genie'']"
    by (simp add: sample_epic_def)
  have t: "map_of ?wi ''workItemType'' = Some (PyStr ''Epic'')"
    by (simp add: sample_epic_def)
  show ?thesis
    using tagged_work_item_not_evaluated
      [of ?wi "[PyStr ''Sprint 4'', PyStr ''Task Genie'']"
        "answering_environment (text_response ''{\"pass\": true}'' 40)" tool_service] h t
    by (simp add: py_format_def)
qed

end
